theory Spec2Isabelle
  imports Complex_Main
begin

section \<open>The browser driver as seen by the verification scripts\<close>

text \<open>
  The three scripts under \<open>src/verification\<close> are straight-line Python programs that drive
  a browser through the Playwright API, print lines and catch exceptions. The driver is an
  external collaborator: the model records every driver call and every printed line as an
  event of a trace, and takes the driver's answers (does the call raise, what does
  \<open>is_visible\<close>, \<open>count\<close> or \<open>bounding_box\<close> return) from an environment that
  is a parameter of every run.

  Python floats (the coordinates of a bounding box, the result of \<open>/\<close> and of
  \<open>-\<close>) are IEEE doubles: a finite double is the real number it denotes, and every
  operation of the scripts on floats rounds its exact result to the nearest double, ties to
  even, or overflows.
\<close>

subsection \<open>Data\<close>

text \<open>The \<open>viewport\<close> dictionary \<open>{"width": w, "height": h}\<close>.\<close>

record viewport_size =
  vp_width :: int
  vp_height :: int

text \<open>
  The dictionary returned by \<open>Locator.bounding_box()\<close>; its values are finite doubles.
\<close>

record bounding_box =
  box_x :: real
  box_y :: real
  box_width :: real
  box_height :: real

text \<open>The page object, as far as the scripts read it: \<open>page.viewport_size\<close>.\<close>

record page =
  viewport_size :: "viewport_size option"

datatype button = LeftButton | RightButton

text \<open>
  The scripts handed to \<open>page.evaluate\<close> and \<open>page.add_init_script\<close> are sequences of
  \<open>localStorage.setItem(key, value)\<close>; the value is a literal string or the JSON
  serialisation of an object literal.
\<close>

datatype json = JStr string | JBool bool

datatype storage_value = Literal string | Stringified "(string \<times> json) list"

type_synonym script = "(string \<times> storage_value) list"

text \<open>Locators are built lazily on the client side; building one is not a driver call.\<close>

datatype locator =
  Locator string
  | GetByText string
  | GetByRole string string
  | First locator
  | Nth locator nat
  | FilterHasText locator string

datatype action =
  Start
  | Stop
  | Launch
  | NewContext "viewport_size option"
  | NewPage
  | BrowserNewPage "viewport_size option"
  | AddInitScript script
  | Goto string "nat option"
  | Evaluate script
  | WaitForSelector string "nat option"
  | WaitForTimeout nat
  | MouseMove int int
  | MouseDown button
  | MouseUp button
  | MouseClick int int
  | Click locator button
  | IsVisible locator
  | Count locator
  | ExpectVisible locator "nat option"
  | BoundingBox locator
  | Screenshot string
  | Sleep nat
  | Close

text \<open>
  All exceptions the driver, \<open>expect\<close> and the arithmetic of the scripts raise are
  subclasses of \<open>Exception\<close>.
\<close>

datatype exn =
  PlaywrightError string
  | TimeoutError string
  | AssertionError string
  | OverflowError string
  | ZeroDivisionError string

text \<open>
  A printed line: a literal string, or one of the f-strings of the scripts with the values
  it interpolates.
\<close>

datatype line =
  Text string
  | ErrorLine string exn
  | WindowBox bounding_box
  | Viewport viewport_size
  | ExpectedXY real real

text \<open>
  An event of a run: a driver call that returned, a driver call that raised, a printed line.
\<close>

datatype event = Call action | Failed action exn | Print line

text \<open>
  The environment: for the driver call made as event number \<open>n\<close> of the run, whether it
  raises, and what it returns when it does not.
\<close>

record env =
  raises :: "nat \<Rightarrow> action \<Rightarrow> exn option"
  is_visible_reply :: "nat \<Rightarrow> bool"
  count_reply :: "nat \<Rightarrow> nat"
  bounding_box_reply :: "nat \<Rightarrow> bounding_box option"

subsection \<open>Python floats\<close>

text \<open>Rounding to the nearest integer, ties to the even one.\<close>

definition round_half_even :: "real \<Rightarrow> int" where
  "round_half_even q =
     (if q - of_int \<lfloor>q\<rfloor> < 1 / 2 then \<lfloor>q\<rfloor>
      else if 1 / 2 < q - of_int \<lfloor>q\<rfloor> then \<lfloor>q\<rfloor> + 1
      else if even \<lfloor>q\<rfloor> then \<lfloor>q\<rfloor> else \<lfloor>q\<rfloor> + 1)"

text \<open>
  The exponent of the unit in the last place of a double near \<open>r\<close>: 53 significant
  bits, and no exponent below that of the subnormal numbers.
\<close>

definition ulp_exponent :: "real \<Rightarrow> int" where
  "ulp_exponent r = max (\<lfloor>log 2 \<bar>r\<bar>\<rfloor> - 52) (- 1074)"

text \<open>Rounding a real to the nearest double, ties to even, before any overflow check.\<close>

definition double_round :: "real \<Rightarrow> real" where
  "double_round r =
     sgn r * (of_int (round_half_even (\<bar>r\<bar> / 2 powi ulp_exponent r)) * 2 powi ulp_exponent r)"

text \<open>The result of an operation on floats: a finite double or an infinity.\<close>

datatype pyfloat = Finite real | PosInf | NegInf

text \<open>\<open>x - y\<close> on two finite doubles: the rounded difference, an infinity on overflow.\<close>

definition float_sub :: "real \<Rightarrow> real \<Rightarrow> pyfloat" where
  "float_sub x y =
     (if 2 ^ 1024 \<le> double_round (x - y) then PosInf
      else if double_round (x - y) \<le> - (2 ^ 1024) then NegInf
      else Finite (double_round (x - y)))"

fun float_abs :: "pyfloat \<Rightarrow> pyfloat" where
  "float_abs (Finite r) = Finite \<bar>r\<bar>"
| "float_abs PosInf = PosInf"
| "float_abs NegInf = PosInf"

text \<open>\<open>f < k\<close> for a float and an integer: Python compares the exact values.\<close>

fun float_less_int :: "pyfloat \<Rightarrow> int \<Rightarrow> bool" where
  "float_less_int (Finite r) k = (r < of_int k)"
| "float_less_int PosInf k = False"
| "float_less_int NegInf k = True"

text \<open>
  \<open>a / b\<close> on two integers: the correctly rounded quotient, \<open>OverflowError\<close> when it
  is too large for a double, \<open>ZeroDivisionError\<close> when \<open>b\<close> is 0.
\<close>

definition int_truediv :: "int \<Rightarrow> int \<Rightarrow> exn + real" where
  "int_truediv a b =
     (if b = 0 then Inl (ZeroDivisionError ''division by zero'')
      else if 2 ^ 1024 \<le> \<bar>double_round (of_int a / of_int b)\<bar>
      then Inl (OverflowError ''integer division result too large for a float'')
      else Inr (double_round (of_int a / of_int b)))"

subsection \<open>Programs: environment, events and exceptions\<close>

text \<open>
  A program takes the environment and the number of events that precede it in the run, and
  gives its outcome (\<open>Inl\<close> an exception that escapes, \<open>Inr\<close> a value) with the events
  it adds to the run, in order.
\<close>

type_synonym 'a prog = "env \<Rightarrow> nat \<Rightarrow> (exn + 'a) \<times> event list"

definition ret :: "'a \<Rightarrow> 'a prog" where
  "ret v e n = (Inr v, [])"

definition bind_prog :: "'a prog \<Rightarrow> ('a \<Rightarrow> 'b prog) \<Rightarrow> 'b prog" where
  "bind_prog m f e n =
     (case m e n of
        (Inl ex, evs) \<Rightarrow> (Inl ex, evs)
      | (Inr v, evs) \<Rightarrow>
          (case f v e (n + length evs) of (r, evs') \<Rightarrow> (r, evs @ evs')))"

definition seq_prog :: "unit prog \<Rightarrow> 'a prog \<Rightarrow> 'a prog" where
  "seq_prog m k = bind_prog m (\<lambda>_. k)"

text \<open>A statement list.\<close>

fun block :: "unit prog list \<Rightarrow> unit prog" where
  "block [] = ret ()"
| "block (s # ss) = seq_prog s (block ss)"

text \<open>A driver call without a result, and one whose result the environment gives.\<close>

definition call :: "action \<Rightarrow> unit prog" where
  "call a e n =
     (case raises e n a of
        Some ex \<Rightarrow> (Inl ex, [Failed a ex])
      | None \<Rightarrow> (Inr (), [Call a]))"

definition call_ret :: "action \<Rightarrow> (env \<Rightarrow> nat \<Rightarrow> 'a) \<Rightarrow> 'a prog" where
  "call_ret a reply e n =
     (case raises e n a of
        Some ex \<Rightarrow> (Inl ex, [Failed a ex])
      | None \<Rightarrow> (Inr (reply e n), [Call a]))"

definition print_line :: "line \<Rightarrow> unit prog" where
  "print_line l e n = (Inr (), [Print l])"

text \<open>A computation of the script itself: it returns or raises, without a driver call.\<close>

definition pure_step :: "exn + 'a \<Rightarrow> 'a prog" where
  "pure_step r e n = (r, [])"

text \<open>\<open>try: body  except [Exception as ex]: handler\<close>\<close>

definition try_except :: "'a prog \<Rightarrow> (exn \<Rightarrow> 'a prog) \<Rightarrow> 'a prog" where
  "try_except body handler e n =
     (case body e n of
        (Inl ex, evs) \<Rightarrow>
          (case handler ex e (n + length evs) of (r, evs') \<Rightarrow> (r, evs @ evs'))
      | (Inr v, evs) \<Rightarrow> (Inr v, evs))"

text \<open>
  \<open>try: body  finally: fin\<close>: the finaliser runs on every exit of the body; an exception
  of the finaliser replaces the body's outcome.
\<close>

definition try_finally :: "'a prog \<Rightarrow> unit prog \<Rightarrow> 'a prog" where
  "try_finally body fin e n =
     (case body e n of
        (r, evs) \<Rightarrow>
          (case fin e (n + length evs) of
             (Inl ex, evs') \<Rightarrow> (Inl ex, evs @ evs')
           | (Inr _, evs') \<Rightarrow> (r, evs @ evs')))"

text \<open>\<open>with sync_playwright() as p: body\<close>\<close>

definition with_sync_playwright :: "'a prog \<Rightarrow> 'a prog" where
  "with_sync_playwright body = seq_prog (call Start) (try_finally body (call Stop))"

text \<open>The events of a whole run and its outcome.\<close>

definition events :: "'a prog \<Rightarrow> env \<Rightarrow> event list" where
  "events p e = snd (p e 0)"

definition outcome :: "'a prog \<Rightarrow> env \<Rightarrow> exn + 'a" where
  "outcome p e = fst (p e 0)"

text \<open>What a run leaves behind: the lines on standard output, the screenshots written.\<close>

fun line_of :: "event \<Rightarrow> line list" where
  "line_of (Print l) = [l]"
| "line_of _ = []"

definition printed :: "event list \<Rightarrow> line list" where
  "printed evs = concat (map line_of evs)"

fun checkpoint_of :: "event \<Rightarrow> string list" where
  "checkpoint_of (Call (Screenshot path)) = [path]"
| "checkpoint_of _ = []"

definition checkpoints :: "event list \<Rightarrow> string list" where
  "checkpoints evs = concat (map checkpoint_of evs)"

section \<open>verify\_context\_menu.py\<close>

definition context_menu_seed :: script where
  "context_menu_seed =
     [(''auth_token'', Literal ''mock-token''),
      (''user'', Stringified [(''username'', JStr ''admin''), (''is_admin'', JBool True)])]"

definition menu_text :: locator where
  "menu_text = Locator ''text=Change Wallpaper''"

definition menubar :: locator where
  "menubar = Locator ''.desktop-menubar''"

definition app_icon :: locator where
  "app_icon = First (Locator ''.flex-1.grid button'')"

definition dock :: locator where
  "dock = Locator ''.desktop-dock''"

text \<open>Lines 29 to 46: the right click on the desktop background, its check and the clean-up.\<close>

definition probe_background :: "unit prog" where
  "probe_background = block
     [call (MouseMove 500 500),
      call (MouseDown RightButton),
      call (MouseUp RightButton),
      try_except
        (block
           [call (WaitForSelector ''text=Change Wallpaper'' (Some 2000)),
            print_line (Text ''SUCCESS: Context menu appeared on desktop background.'')])
        (\<lambda>_. print_line (Text ''FAILURE: Context menu did NOT appear on desktop background.'')),
      call (Screenshot ''verification/desktop_context_menu.png''),
      call (MouseClick 500 500),
      call (WaitForTimeout 500)]"

text \<open>Lines 49 to 58.\<close>

definition probe_menubar :: "unit prog" where
  "probe_menubar = block
     [call (Click menubar RightButton),
      try_except
        (bind_prog (call_ret (IsVisible menu_text) is_visible_reply) (\<lambda>v.
           if v then print_line (Text ''FAILURE: Context menu appeared on Menu Bar.'')
           else print_line (Text ''SUCCESS: Context menu did NOT appear on Menu Bar.'')))
        (\<lambda>_. print_line (Text ''SUCCESS: Context menu did NOT appear on Menu Bar (exception).''))]"

text \<open>Lines 63 to 74.\<close>

definition probe_app_icon :: "unit prog" where
  "probe_app_icon =
     bind_prog (call_ret (Count app_icon) count_reply) (\<lambda>n.
       if n > 0 then block
         [call (Click app_icon RightButton),
          try_except
            (bind_prog (call_ret (IsVisible menu_text) is_visible_reply) (\<lambda>v.
               if v then print_line (Text ''FAILURE: Context menu appeared on App Icon.'')
               else print_line (Text ''SUCCESS: Context menu did NOT appear on App Icon.'')))
            (\<lambda>_. print_line
               (Text ''SUCCESS: Context menu did NOT appear on App Icon (exception).''))]
       else print_line (Text ''WARNING: Could not find app icon to test.''))"

text \<open>Lines 77 to 88.\<close>

definition probe_dock :: "unit prog" where
  "probe_dock =
     bind_prog (call_ret (Count dock) count_reply) (\<lambda>n.
       if n > 0 then block
         [call (Click dock RightButton),
          try_except
            (bind_prog (call_ret (IsVisible menu_text) is_visible_reply) (\<lambda>v.
               if v then print_line (Text ''FAILURE: Context menu appeared on Dock.'')
               else print_line (Text ''SUCCESS: Context menu did NOT appear on Dock.'')))
            (\<lambda>_. print_line
               (Text ''SUCCESS: Context menu did NOT appear on Dock (exception).''))]
       else print_line (Text ''WARNING: Could not find dock to test.''))"

text \<open>The body of the outer \<open>try\<close>, lines 20 to 91.\<close>

definition context_menu_body :: "unit prog" where
  "context_menu_body = block
     [call (Goto ''http://localhost:5173/desktop'' (Some 10000)),
      call (WaitForSelector ''.desktop-menubar'' (Some 10000)),
      print_line (Text ''Desktop loaded successfully.''),
      probe_background,
      probe_menubar,
      probe_app_icon,
      probe_dock,
      call (Screenshot ''verification/no_context_menu.png'')]"

definition context_menu_handler :: "exn \<Rightarrow> unit prog" where
  "context_menu_handler ex = block
     [print_line (ErrorLine ''Error during verification: '' ex),
      call (Screenshot ''verification/error.png'')]"

definition verify_context_menu :: "unit prog" where
  "verify_context_menu = with_sync_playwright (block
     [call Launch,
      call (NewContext (Some \<lparr>vp_width = 1280, vp_height = 800\<rparr>)),
      call NewPage,
      call (Goto ''http://localhost:5173/'' None),
      call (Evaluate context_menu_seed),
      try_finally (try_except context_menu_body context_menu_handler) (call Close)])"

section \<open>verify\_activity.py\<close>

definition activity_seed :: script where
  "activity_seed =
     [(''auth_token'', Literal ''mock-token''),
      (''user'', Stringified
         [(''username'', JStr ''admin''), (''isAdmin'', JBool True),
          (''accountType'', JStr ''system'')])]"

definition activity_icon :: locator where
  "activity_icon = First (GetByRole ''button'' ''Activity Monitor'')"

text \<open>The body of the \<open>try\<close>, lines 28 to 55.\<close>

definition activity_body :: "unit prog" where
  "activity_body = block
     [call (Goto ''http://localhost:5173/desktop'' None),
      call (ExpectVisible (GetByText ''Mynt NAS'') (Some 10000)),
      call (ExpectVisible activity_icon None),
      call (Click activity_icon LeftButton),
      call (ExpectVisible (Nth (GetByText ''Activity Monitor'') 1) None),
      call (ExpectVisible (GetByRole ''button'' ''CPU'') None),
      call (ExpectVisible (GetByRole ''button'' ''Memory'') None),
      call (ExpectVisible (GetByText ''Process Name'') None),
      call (ExpectVisible (GetByText ''% CPU'') None),
      call (Sleep 1),
      call (Screenshot ''verification/activity_monitor.png''),
      print_line (Text ''Screenshot captured'')]"

definition error_handler :: "exn \<Rightarrow> unit prog" where
  "error_handler ex = block
     [print_line (ErrorLine ''Error: '' ex),
      call (Screenshot ''verification/error.png'')]"

definition verify_activity_monitor :: "unit prog" where
  "verify_activity_monitor = with_sync_playwright (block
     [call Launch,
      call (NewContext None),
      call NewPage,
      call (AddInitScript activity_seed),
      try_finally (try_except activity_body error_handler) (call Close)])"

section \<open>verify\_window\_center.py\<close>

definition window_center_seed :: script where
  "window_center_seed =
     [(''auth_token'', Literal ''fake-token-for-testing''),
      (''user'', Stringified [(''username'', JStr ''admin''), (''role'', JStr ''admin'')])]"

definition window_selector :: string where
  "window_selector = ''.desktop-window''"

text \<open>Lines 47 and 48: true division of two integers.\<close>

definition expected_x :: "viewport_size \<Rightarrow> exn + real" where
  "expected_x viewport = int_truediv (vp_width viewport - 800) 2"

definition expected_y :: "viewport_size \<Rightarrow> exn + real" where
  "expected_y viewport = int_truediv (vp_height viewport - 600) 2"

text \<open>The condition of line 53, on the box and the two expected coordinates.\<close>

definition centered :: "bounding_box \<Rightarrow> real \<Rightarrow> real \<Rightarrow> bool" where
  "centered box ex ey =
     (float_less_int (float_abs (float_sub (box_x box) ex)) 5
      \<and> float_less_int (float_abs (float_sub (box_y box) ey)) 5)"

text \<open>Lines 42 to 56: \<open>if box and viewport:\<close> has no \<open>else\<close>.\<close>

definition check_centering :: "bounding_box option \<Rightarrow> viewport_size option \<Rightarrow> unit prog" where
  "check_centering box viewport =
     (case (box, viewport) of
        (Some b, Some v) \<Rightarrow> block
          [print_line (WindowBox b),
           print_line (Viewport v),
           bind_prog (pure_step (expected_x v)) (\<lambda>ex.
           bind_prog (pure_step (expected_y v)) (\<lambda>ey. block
             [print_line (ExpectedXY ex ey),
              if centered b ex ey
              then print_line (Text ''VERIFICATION SUCCESS: Window is centered.'')
              else print_line (Text ''VERIFICATION FAILURE: Window is not centered.'')]))]
      | _ \<Rightarrow> ret ())"

definition verify_window_centering :: "page \<Rightarrow> unit prog" where
  "verify_window_centering pg = block
     [call (Goto ''http://localhost:5173/login'' None),
      call (Evaluate window_center_seed),
      call (Goto ''http://localhost:5173/desktop'' None),
      call (WaitForSelector ''.desktop-icon'' None),
      call (Click (First (FilterHasText (Locator ''button.desktop-icon'') ''Settings'')) LeftButton),
      call (WaitForSelector window_selector None),
      call (Screenshot ''verification/verification.png''),
      bind_prog (call_ret (BoundingBox (First (Locator window_selector))) bounding_box_reply)
        (\<lambda>box. check_centering box (viewport_size pg))]"

text \<open>The \<open>__main__\<close> block, lines 59 to 69.\<close>

definition main_viewport :: viewport_size where
  "main_viewport = \<lparr>vp_width = 1280, vp_height = 800\<rparr>"

definition window_center_main :: "unit prog" where
  "window_center_main = with_sync_playwright (block
     [call Launch,
      call (BrowserNewPage (Some main_viewport)),
      try_finally
        (try_except (verify_window_centering \<lparr>viewport_size = Some main_viewport\<rparr>) error_handler)
        (call Close)])"

section \<open>Environments used as concrete inputs\<close>

definition centered_box :: bounding_box where
  "centered_box = \<lparr>box_x = 240, box_y = 100, box_width = 800, box_height = 600\<rparr>"

text \<open>Nothing raises, no context menu is ever visible, every counted locator matches once.\<close>

definition quiet_env :: env where
  "quiet_env =
     \<lparr>raises = (\<lambda>_ _. None), is_visible_reply = (\<lambda>_. False), count_reply = (\<lambda>_. 1),
      bounding_box_reply = (\<lambda>_. Some centered_box)\<rparr>"

text \<open>
  A window whose left edge is at \<open>2\<^sup>-\<^sup>6\<^sup>0\<close> and whose top edge is at 5, on a page
  with an 810 x 610 viewport: both coordinates are doubles.
\<close>

definition offset_box :: bounding_box where
  "offset_box = \<lparr>box_x = 1 / 2 ^ 60, box_y = 5, box_width = 800, box_height = 600\<rparr>"

definition offset_viewport :: viewport_size where
  "offset_viewport = \<lparr>vp_width = 810, vp_height = 610\<rparr>"

definition offset_env :: env where
  "offset_env = quiet_env \<lparr>bounding_box_reply := (\<lambda>_. Some offset_box)\<rparr>"

text \<open>The target application is not running: the first navigation is refused.\<close>

definition origin_unreachable :: env where
  "origin_unreachable = quiet_env
     \<lparr>raises := (\<lambda>n a. if a = Goto ''http://localhost:5173/'' None
                          then Some (PlaywrightError ''net::ERR_CONNECTION_REFUSED'') else None)\<rparr>"

text \<open>\<open>bounding_box()\<close> returns \<open>None\<close> (the element is not visible any more).\<close>

definition no_bounding_box :: env where
  "no_bounding_box = quiet_env \<lparr>bounding_box_reply := (\<lambda>_. None)\<rparr>"

text \<open>Every \<open>is_visible()\<close> on the menu text raises.\<close>

definition visibility_raises :: env where
  "visibility_raises = quiet_env
     \<lparr>raises := (\<lambda>n a. if a = IsVisible menu_text
                          then Some (PlaywrightError ''Target closed'') else None)\<rparr>"

text \<open>The table header "Process Name" never shows: its \<open>expect\<close> fails.\<close>

definition header_missing :: env where
  "header_missing = quiet_env
     \<lparr>raises := (\<lambda>n a. if a = ExpectVisible (GetByText ''Process Name'') None
                          then Some (AssertionError ''Locator expected to be visible'') else None)\<rparr>"

text \<open>Neither an application icon nor the dock is found.\<close>

definition nothing_found :: env where
  "nothing_found = quiet_env \<lparr>count_reply := (\<lambda>_. 0)\<rparr>"

text \<open>
  Every visibility check goes wrong: the menu does not show on the background (the wait
  times out) and shows on the menu bar, the icon and the dock.
\<close>

definition checks_fail :: env where
  "checks_fail = quiet_env
     \<lparr>raises := (\<lambda>n a. if a = WaitForSelector ''text=Change Wallpaper'' (Some 2000)
                          then Some (TimeoutError ''Timeout 2000ms exceeded'') else None),
      is_visible_reply := (\<lambda>_. True)\<rparr>"

section \<open>Properties of runs\<close>

subsection \<open>Session seeding\<close>

text \<open>A script seeds the session when it sets both storage keys.\<close>

definition sets_session :: "script \<Rightarrow> bool" where
  "sets_session s = (''auth_token'' \<in> set (map fst s) \<and> ''user'' \<in> set (map fst s))"

text \<open>
  Every navigation of the run is made with a seeding init script installed: the
  application's scripts run on a navigation, and only an init script runs before them.
  The flag says whether such a script is installed.
\<close>

fun seeded_navigations :: "bool \<Rightarrow> event list \<Rightarrow> bool" where
  "seeded_navigations installed [] = True"
| "seeded_navigations installed (Call (AddInitScript s) # evs) =
     seeded_navigations (installed \<or> sets_session s) evs"
| "seeded_navigations installed (Call (Goto u t) # evs) =
     (installed \<and> seeded_navigations installed evs)"
| "seeded_navigations installed (Failed (Goto u t) ex # evs) =
     (installed \<and> seeded_navigations installed evs)"
| "seeded_navigations installed (_ # evs) = seeded_navigations installed evs"

text \<open>
  The navigation and seeding steps of a run, in order: every \<open>goto\<close>, \<open>evaluate\<close> and
  \<open>add_init_script\<close> with whether it returned.
\<close>

fun seeding_step :: "event \<Rightarrow> (action \<times> bool) list" where
  "seeding_step (Call (Goto u t)) = [(Goto u t, True)]"
| "seeding_step (Failed (Goto u t) ex) = [(Goto u t, False)]"
| "seeding_step (Call (Evaluate s)) = [(Evaluate s, True)]"
| "seeding_step (Failed (Evaluate s) ex) = [(Evaluate s, False)]"
| "seeding_step (Call (AddInitScript s)) = [(AddInitScript s, True)]"
| "seeding_step (Failed (AddInitScript s) ex) = [(AddInitScript s, False)]"
| "seeding_step _ = []"

definition seeding_steps :: "event list \<Rightarrow> (action \<times> bool) list" where
  "seeding_steps evs = concat (map seeding_step evs)"

text \<open>A program none of whose events is observed by \<open>f\<close>, whatever the environment.\<close>

definition quiet :: "(event \<Rightarrow> 'o list) \<Rightarrow> 'a prog \<Rightarrow> bool" where
  "quiet f p = (\<forall>e n. concat (map f (snd (p e n))) = [])"

subsection \<open>Context-menu state between probes\<close>

text \<open>
  A secondary activation (the end of a right click, attempted or done) may open the context
  menu; a primary click that returned closes it.
\<close>

fun secondary_activation :: "event \<Rightarrow> bool" where
  "secondary_activation (Call (MouseUp RightButton)) = True"
| "secondary_activation (Failed (MouseUp RightButton) ex) = True"
| "secondary_activation (Call (Click l RightButton)) = True"
| "secondary_activation (Failed (Click l RightButton) ex) = True"
| "secondary_activation _ = False"

fun primary_click :: "event \<Rightarrow> bool" where
  "primary_click (Call (MouseClick px py)) = True"
| "primary_click (Call (Click l LeftButton)) = True"
| "primary_click _ = False"

text \<open>Whether a menu may be open after the events, given whether one may be open before.\<close>

fun menu_may_be_open :: "bool \<Rightarrow> event list \<Rightarrow> bool" where
  "menu_may_be_open b [] = b"
| "menu_may_be_open b (ev # evs) =
     menu_may_be_open
       (if secondary_activation ev then True else if primary_click ev then False else b) evs"

text \<open>
  No probe starts with a menu that a previous probe may have left open: between two
  secondary activations there is a primary click.
\<close>

fun no_leftover_menu :: "bool \<Rightarrow> event list \<Rightarrow> bool" where
  "no_leftover_menu b [] = True"
| "no_leftover_menu b (ev # evs) =
     (if secondary_activation ev then \<not> b \<and> no_leftover_menu True evs
      else if primary_click ev then no_leftover_menu False evs
      else no_leftover_menu b evs)"

subsection \<open>The records of the region matrix\<close>

definition loaded_line :: line where
  "loaded_line = Text ''Desktop loaded successfully.''"

definition background_records :: "line list" where
  "background_records =
     [Text ''SUCCESS: Context menu appeared on desktop background.'',
      Text ''FAILURE: Context menu did NOT appear on desktop background.'']"

definition menubar_records :: "line list" where
  "menubar_records =
     [Text ''FAILURE: Context menu appeared on Menu Bar.'',
      Text ''SUCCESS: Context menu did NOT appear on Menu Bar.'',
      Text ''SUCCESS: Context menu did NOT appear on Menu Bar (exception).'']"

definition app_icon_records :: "line list" where
  "app_icon_records =
     [Text ''FAILURE: Context menu appeared on App Icon.'',
      Text ''SUCCESS: Context menu did NOT appear on App Icon.'',
      Text ''SUCCESS: Context menu did NOT appear on App Icon (exception).'']"

definition dock_records :: "line list" where
  "dock_records =
     [Text ''FAILURE: Context menu appeared on Dock.'',
      Text ''SUCCESS: Context menu did NOT appear on Dock.'',
      Text ''SUCCESS: Context menu did NOT appear on Dock (exception).'']"

definition app_icon_warning :: line where
  "app_icon_warning = Text ''WARNING: Could not find app icon to test.''"

definition dock_warning :: line where
  "dock_warning = Text ''WARNING: Could not find dock to test.''"

text \<open>The visibility checks of the four probes.\<close>

definition visibility_check :: "action \<Rightarrow> bool" where
  "visibility_check a =
     (a = WaitForSelector ''text=Change Wallpaper'' (Some 2000) \<or> a = IsVisible menu_text)"

text \<open>An assertion (\<open>expect(...).to_be_visible()\<close>) that failed.\<close>

fun failed_assertion :: "event \<Rightarrow> bool" where
  "failed_assertion (Failed (ExpectVisible l t) ex) = True"
| "failed_assertion _ = False"

text \<open>The driver calls that are assertions.\<close>

fun is_assertion :: "action \<Rightarrow> bool" where
  "is_assertion (ExpectVisible l t) = True"
| "is_assertion _ = False"

subsection \<open>What a block that returns leaves behind\<close>

text \<open>
  Under the environment \<open>e\<close>, wherever it starts, the program returns normally and the
  observations \<open>f\<close> picks from its events are one choice from each list of \<open>L\<close>, in
  order.
\<close>

definition yields :: "(event \<Rightarrow> 'o list) \<Rightarrow> env \<Rightarrow> unit prog \<Rightarrow> 'o list list \<Rightarrow> bool" where
  "yields f e p L =
     (\<forall>n. fst (p e n) = Inr () \<and> concat (map f (snd (p e n))) \<in> set (product_lists L))"

section \<open>Unfolding the combinators\<close>

lemmas prog_defs = ret_def bind_prog_def seq_prog_def call_def call_ret_def print_line_def
  pure_step_def try_except_def try_finally_def with_sync_playwright_def

section \<open>Rounding to doubles\<close>

lemma powr_powi: "(2::real) powr of_int k = 2 powi k"
  by (simp add: powr_real_of_int power_int_def power_one_over inverse_eq_divide)

lemma binary_exponent_bounds:
  assumes "0 < (a::real)"
  shows "2 powi \<lfloor>log 2 a\<rfloor> \<le> a" and "a < 2 powi (\<lfloor>log 2 a\<rfloor> + 1)"
proof -
  have "2 powr of_int \<lfloor>log 2 a\<rfloor> \<le> a \<and> a < 2 powr (of_int \<lfloor>log 2 a\<rfloor> + 1)"
    using floor_log_eq_powr_iff [of a 2 "\<lfloor>log 2 a\<rfloor>"] assms by simp
  moreover have "(2::real) powr (of_int \<lfloor>log 2 a\<rfloor> + 1) = 2 powi (\<lfloor>log 2 a\<rfloor> + 1)"
    using powr_powi [of "\<lfloor>log 2 a\<rfloor> + 1"] by simp
  ultimately show "2 powi \<lfloor>log 2 a\<rfloor> \<le> a" and "a < 2 powi (\<lfloor>log 2 a\<rfloor> + 1)"
    by (simp_all add: powr_powi)
qed

lemma round_half_even_of_int [simp]: "round_half_even (of_int m) = m"
  by (simp add: round_half_even_def)

lemma round_half_even_ge_floor: "\<lfloor>q\<rfloor> \<le> round_half_even q"
  by (simp add: round_half_even_def)

lemma round_half_even_le: "q \<le> of_int N \<Longrightarrow> round_half_even q \<le> N"
proof -
  assume le: "q \<le> of_int N"
  show ?thesis
  proof (cases "q = of_int \<lfloor>q\<rfloor>")
    case True
    then have "round_half_even q = \<lfloor>q\<rfloor>" by (simp add: round_half_even_def)
    moreover have "\<lfloor>q\<rfloor> \<le> N" using le by (simp add: floor_le_iff)
    ultimately show ?thesis by simp
  next
    case False
    moreover have "of_int \<lfloor>q\<rfloor> \<le> q" by (rule of_int_floor_le)
    ultimately have "of_int \<lfloor>q\<rfloor> < q" by linarith
    then have "of_int \<lfloor>q\<rfloor> < (of_int N :: real)" using le by linarith
    then have "\<lfloor>q\<rfloor> < N" by simp
    moreover have "round_half_even q \<le> \<lfloor>q\<rfloor> + 1" by (simp add: round_half_even_def)
    ultimately show ?thesis by linarith
  qed
qed

lemma round_half_even_less_iff:
  assumes "even N"
  shows "round_half_even q < N \<longleftrightarrow> q < of_int N - 1 / 2"
proof
  assume lt: "round_half_even q < N"
  show "q < of_int N - 1 / 2"
  proof (rule ccontr)
    assume "\<not> q < of_int N - 1 / 2"
    then have ge: "of_int N - 1 / 2 \<le> q" by simp
    then have "of_int (N - 1) \<le> q" by simp
    then have f: "N - 1 \<le> \<lfloor>q\<rfloor>" by (simp add: le_floor_iff)
    have "\<lfloor>q\<rfloor> < N" using lt round_half_even_ge_floor [of q] by linarith
    with f have fl: "\<lfloor>q\<rfloor> = N - 1" by linarith
    then have "odd \<lfloor>q\<rfloor>" using assms by simp
    moreover have "1 / 2 \<le> q - of_int \<lfloor>q\<rfloor>" using ge fl by simp
    ultimately have "round_half_even q = \<lfloor>q\<rfloor> + 1"
      by (auto simp: round_half_even_def)
    with fl lt show False by simp
  qed
next
  assume lt: "q < of_int N - 1 / 2"
  have "q < of_int N" using lt by linarith
  then have "\<lfloor>q\<rfloor> < N" by (simp add: floor_less_iff)
  then have "\<lfloor>q\<rfloor> \<le> N - 1" by linarith
  then consider "\<lfloor>q\<rfloor> \<le> N - 2" | "\<lfloor>q\<rfloor> = N - 1" by linarith
  then show "round_half_even q < N"
  proof cases
    case 1
    moreover have "round_half_even q \<le> \<lfloor>q\<rfloor> + 1" by (simp add: round_half_even_def)
    ultimately show ?thesis by linarith
  next
    case 2
    then have "q - of_int \<lfloor>q\<rfloor> < 1 / 2" using lt by simp
    then have "round_half_even q = \<lfloor>q\<rfloor>" by (simp add: round_half_even_def)
    with 2 show ?thesis by simp
  qed
qed


lemma two_powi_mono: "k \<le> l \<Longrightarrow> (2::real) powi k \<le> 2 powi l"
  by (rule power_int_increasing) simp_all

lemma two_powi_less_cancel: "(2::real) powi k < 2 powi l \<Longrightarrow> k < l"
  using two_powi_mono [of l k] by (cases "k < l") simp_all

lemma two_powi_add: "(2::real) powi (k + l) = 2 powi k * 2 powi l"
  by (simp add: power_int_add)

lemma two_powi_diff: "(2::real) powi (k - l) = 2 powi k / 2 powi l"
  by (simp add: power_int_diff)

lemma round_half_even_nonneg: "0 \<le> q \<Longrightarrow> 0 \<le> round_half_even q"
proof -
  assume "0 \<le> q"
  then have "0 \<le> \<lfloor>q\<rfloor>" by simp
  with round_half_even_ge_floor [of q] show ?thesis by linarith
qed

lemma abs_double_round:
  "\<bar>double_round r\<bar> =
     (if r = 0 then 0
      else of_int (round_half_even (\<bar>r\<bar> / 2 powi ulp_exponent r)) * 2 powi ulp_exponent r)"
proof (cases "r = 0")
  case True
  then show ?thesis by (simp add: double_round_def)
next
  case False
  have "0 \<le> \<bar>r\<bar> / 2 powi ulp_exponent r" by simp
  then have "0 \<le> round_half_even (\<bar>r\<bar> / 2 powi ulp_exponent r)"
    by (rule round_half_even_nonneg)
  then show ?thesis
    using False by (simp add: double_round_def abs_mult abs_sgn_eq)
qed

lemma double_round_representable:
  assumes m: "\<bar>m\<bar> < 2 ^ 53" and k: "- 1074 \<le> k"
  shows "double_round (of_int m * 2 powi k) = of_int m * 2 powi k"
proof (cases "m = 0")
  case True
  then show ?thesis by (simp add: double_round_def)
next
  case False
  define r :: real where "r = of_int m * 2 powi k"
  define a :: real where "a = \<bar>r\<bar>"
  define e where "e = ulp_exponent r"
  have a: "a = of_int \<bar>m\<bar> * 2 powi k"
    by (simp add: a_def r_def abs_mult)
  have a_pos: "0 < a" using False by (simp add: a)
  have "of_int \<bar>m\<bar> < (2::real) ^ 53"
    using m by (metis of_int_less_numeral_power_cancel_iff)
  then have "a < 2 ^ 53 * 2 powi k" by (simp add: a)
  also have "\<dots> = 2 powi (53 + k)" by (simp add: two_powi_add)
  finally have "a < 2 powi (53 + k)" .
  with binary_exponent_bounds(1) [OF a_pos] have "(2::real) powi \<lfloor>log 2 a\<rfloor> < 2 powi (53 + k)"
    by linarith
  then have "\<lfloor>log 2 a\<rfloor> < 53 + k" by (rule two_powi_less_cancel)
  then have e_le: "e \<le> k"
    using k by (simp add: e_def ulp_exponent_def a_def)
  have "a / 2 powi e = of_int \<bar>m\<bar> * 2 powi (k - e)"
    by (simp add: a two_powi_diff)
  also have "\<dots> = of_int (\<bar>m\<bar> * 2 ^ nat (k - e))"
    using e_le by (simp add: power_int_def)
  finally have q: "a / 2 powi e = of_int (\<bar>m\<bar> * 2 ^ nat (k - e))" .
  have "of_int (round_half_even (a / 2 powi e)) * 2 powi e = (a / 2 powi e) * 2 powi e"
    by (simp only: q round_half_even_of_int)
  also have "\<dots> = a" by simp
  finally have "of_int (round_half_even (a / 2 powi e)) * 2 powi e = a" .
  then have "double_round r = sgn r * a"
    by (simp add: double_round_def a_def e_def)
  also have "\<dots> = r" by (simp add: a_def sgn_mult_abs)
  finally show ?thesis by (simp add: r_def)
qed

lemma double_round_of_int:
  "\<bar>m\<bar> < 2 ^ 53 \<Longrightarrow> double_round (of_int m) = of_int m"
  using double_round_representable [of m 0] by simp

lemma double_round_half:
  "\<bar>m\<bar> < 2 ^ 53 \<Longrightarrow> double_round (of_int m / 2) = of_int m / 2"
  using double_round_representable [of m "- 1"] by (simp add: power_int_minus field_simps)


lemma double_round_below_five:
  "\<bar>double_round d\<bar> < 5 \<longleftrightarrow> \<bar>d\<bar> < 5 - 2 powi (- 51)"
proof (cases "d = 0")
  case True
  then show ?thesis by (simp add: double_round_def power_int_minus)
next
  case False
  define a :: real where "a = \<bar>d\<bar>"
  define L where "L = \<lfloor>log 2 a\<rfloor>"
  define e where "e = ulp_exponent d"
  define M where "M = round_half_even (a / 2 powi e)"
  have a_pos: "0 < a" using False by (simp add: a_def)
  have lo: "2 powi L \<le> a" and hi: "a < 2 powi (L + 1)"
    using binary_exponent_bounds [OF a_pos] by (simp_all add: L_def)
  have e: "e = max (L - 52) (- 1074)"
    by (simp add: e_def ulp_exponent_def L_def a_def)
  have rd: "\<bar>double_round d\<bar> = of_int M * 2 powi e"
    using False by (simp add: abs_double_round M_def e_def a_def)
  have M0: "0 \<le> M"
    unfolding M_def by (rule round_half_even_nonneg) (simp add: a_def)
  consider "3 \<le> L" | "L = 2" | "L \<le> 1" by linarith
  then show ?thesis
  proof cases
    case 1
    then have e1: "e = L - 52" by (simp add: e)
    have "(2::real) ^ 52 = 2 powi L / 2 powi e"
      by (simp add: e1 flip: two_powi_diff)
    also have "\<dots> \<le> a / 2 powi e"
      using lo by (simp add: divide_right_mono)
    finally have "of_int (2 ^ 52) \<le> a / 2 powi e" by simp
    then have "2 ^ 52 \<le> \<lfloor>a / 2 powi e\<rfloor>" by (simp only: le_floor_iff)
    with round_half_even_ge_floor [of "a / 2 powi e"] have "2 ^ 52 \<le> M"
      unfolding M_def by linarith
    then have "(2::real) ^ 52 \<le> of_int M"
      by (metis of_int_le_iff of_int_numeral of_int_power)
    then have s1: "(2::real) ^ 52 * 2 powi e \<le> of_int M * 2 powi e"
      by (simp add: mult_right_mono)
    have s2: "(2::real) ^ 52 * 2 powi e = 2 powi L"
      by (simp add: e1 two_powi_diff)
    have s3: "(2::real) powi 3 \<le> 2 powi L"
      using 1 by (rule two_powi_mono)
    have s4: "(2::real) powi 3 = 8" by simp
    have "(8::real) \<le> of_int M * 2 powi e" using s1 s2 s3 s4 by linarith
    then have big: "8 \<le> \<bar>double_round d\<bar>" by (simp only: rd)
    have "(8::real) \<le> a" using lo s3 s4 by linarith
    moreover have "(0::real) < 2 powi (- 51)" by simp
    ultimately have "\<not> a < 5 - 2 powi (- 51)" by linarith
    with big show ?thesis by (simp add: a_def)
  next
    case 2
    then have e2: "e = - 50" by (simp add: e)
    have "\<bar>double_round d\<bar> < 5 \<longleftrightarrow> of_int M * 2 powi (- 50) < (5::real)"
      by (simp add: rd e2)
    also have "\<dots> \<longleftrightarrow> of_int M < (5::real) * 2 ^ 50"
      by (simp add: power_int_minus field_simps)
    also have "\<dots> \<longleftrightarrow> M < 5 * 2 ^ 50"
      by (metis of_int_less_iff of_int_mult of_int_numeral of_int_power)
    also have "\<dots> \<longleftrightarrow> a / 2 powi e < of_int (5 * 2 ^ 50) - 1 / 2"
      unfolding M_def by (rule round_half_even_less_iff) simp
    also have "\<dots> \<longleftrightarrow> a < 5 - 2 powi (- 51)"
      by (simp add: e2 power_int_minus field_simps)
    finally show ?thesis by (simp add: a_def)
  next
    case 3
    then have e3: "e \<le> - 51" and e3': "L - 52 \<le> e" by (simp_all add: e)
    have "a / 2 powi e \<le> a / 2 powi (L - 52)"
      using e3' a_pos by (simp add: frac_le two_powi_mono)
    also have "\<dots> < 2 powi (L + 1) / 2 powi (L - 52)"
      using hi by (simp add: divide_strict_right_mono)
    also have "\<dots> = 2 ^ 53"
      by (simp flip: two_powi_diff)
    finally have "a / 2 powi e \<le> of_int (2 ^ 53)" by simp
    then have "M \<le> 2 ^ 53" unfolding M_def by (rule round_half_even_le)
    then have "of_int M \<le> (2::real) ^ 53"
      by (metis of_int_le_iff of_int_numeral of_int_power)
    then have "of_int M * 2 powi e \<le> (2::real) ^ 53 * 2 powi e"
      by (simp add: mult_right_mono)
    also have "\<dots> \<le> 2 ^ 53 * 2 powi (- 51)"
      using two_powi_mono [OF e3] by (intro mult_left_mono) simp_all
    also have "\<dots> = 4"
      by (simp add: power_int_minus)
    finally have "\<bar>double_round d\<bar> \<le> 4" by (simp add: rd)
    moreover have "a < 4"
    proof -
      have "(2::real) powi (L + 1) \<le> 2 powi 2"
        using 3 by (intro two_powi_mono) simp
      with hi show ?thesis by simp
    qed
    moreover have "(2::real) powi (- 51) < 1" by (simp add: power_int_minus)
    ultimately show ?thesis by (simp add: a_def)
  qed
qed

text \<open>
  The comparison of line 53 on one axis: the rounded difference is below 5 exactly when the
  exact difference is below \<open>5 - 2\<^sup>-\<^sup>5\<^sup>1\<close>, the midpoint between 5 and the double
  before it.
\<close>

lemma float_check_iff:
  "float_less_int (float_abs (float_sub x y)) 5 \<longleftrightarrow> \<bar>x - y\<bar> < 5 - 2 powi (- 51)"
proof -
  have big: "(5::real) < 2 ^ 1024"
    using power_increasing [of 3 1024 "2::real"] by simp
  consider "2 ^ 1024 \<le> double_round (x - y)" | "double_round (x - y) \<le> - (2 ^ 1024)"
    | "\<not> 2 ^ 1024 \<le> double_round (x - y)" and "\<not> double_round (x - y) \<le> - (2 ^ 1024)"
    by blast
  then have "float_less_int (float_abs (float_sub x y)) 5 \<longleftrightarrow> \<bar>double_round (x - y)\<bar> < 5"
  proof cases
    case 1
    then have "\<not> \<bar>double_round (x - y)\<bar> < 5" using big by linarith
    with 1 show ?thesis by (simp only: float_sub_def if_True float_abs.simps float_less_int.simps)
  next
    case 2
    then have n: "\<not> \<bar>double_round (x - y)\<bar> < 5" using big by linarith
    have "\<not> 2 ^ 1024 \<le> double_round (x - y)" using 2 big by linarith
    with 2 n show ?thesis
      by (simp only: float_sub_def if_True if_False float_abs.simps float_less_int.simps)
  next
    case 3
    then show ?thesis
      by (simp only: float_sub_def if_False float_abs.simps float_less_int.simps of_int_numeral)
  qed
  then show ?thesis by (simp only: double_round_below_five)
qed

lemma centered_iff:
  "centered b ex ey \<longleftrightarrow>
     \<bar>box_x b - ex\<bar> < 5 - 2 powi (- 51) \<and> \<bar>box_y b - ey\<bar> < 5 - 2 powi (- 51)"
  by (simp only: centered_def float_check_iff)

text \<open>For viewports of any realistic size the division of lines 47 and 48 is exact.\<close>

lemma int_truediv_two_exact:
  assumes "\<bar>m\<bar> < 2 ^ 53"
  shows "int_truediv m 2 = Inr (real_of_int m / 2)"
proof -
  have r: "double_round (real_of_int m / 2) = real_of_int m / 2"
    using assms by (rule double_round_half)
  have "\<bar>real_of_int m\<bar> < 2 ^ 53"
    using assms by (metis of_int_abs of_int_less_numeral_power_cancel_iff)
  moreover have "(2::real) ^ 53 \<le> 2 ^ 1024"
    by (rule power_increasing) simp_all
  ultimately have "\<bar>real_of_int m / 2\<bar> < 2 ^ 1024" by simp
  then have "\<not> 2 ^ 1024 \<le> \<bar>real_of_int m / 2\<bar>" by linarith
  then show ?thesis
    unfolding int_truediv_def by (simp only: of_int_numeral r if_False) simp
qed

lemma check_centering_run:
  assumes "\<bar>vp_width v - 800\<bar> < 2 ^ 53" and "\<bar>vp_height v - 600\<bar> < 2 ^ 53"
  shows "check_centering (Some b) (Some v) e n =
     (Inr (),
      [Print (WindowBox b), Print (Viewport v),
       Print (ExpectedXY (real_of_int (vp_width v - 800) / 2)
                (real_of_int (vp_height v - 600) / 2)),
       Print (Text
         (if \<bar>box_x b - real_of_int (vp_width v - 800) / 2\<bar> < 5 - 2 powi (- 51)
             \<and> \<bar>box_y b - real_of_int (vp_height v - 600) / 2\<bar> < 5 - 2 powi (- 51)
          then ''VERIFICATION SUCCESS: Window is centered.''
          else ''VERIFICATION FAILURE: Window is not centered.''))])"
  by (simp add: check_centering_def expected_x_def expected_y_def
      int_truediv_two_exact [OF assms(1)] int_truediv_two_exact [OF assms(2)]
      centered_iff prog_defs)

lemma check_centering_missing [simp]:
  "check_centering None viewport = ret ()" "check_centering box None = ret ()"
  by (simp_all add: check_centering_def split: option.splits)

lemma main_viewport_in_range:
  "\<bar>vp_width main_viewport - 800\<bar> < 2 ^ 53" "\<bar>vp_height main_viewport - 600\<bar> < 2 ^ 53"
  by (simp_all add: main_viewport_def)

section \<open>The centering check\<close>

text \<open>
  C1 (as amended). When no driver call raises, the window has a bounding box \<open>b\<close> and the
  page a viewport \<open>v\<close> with \<open>|width - 800|\<close> and \<open>|height - 600|\<close> below \<open>2\<^sup>5\<^sup>3\<close>,
  \<open>verify_window_centering\<close> prints the expected corner
  \<open>((width - 800) / 2, (height - 600) / 2)\<close> and returns normally, and it prints the
  success line if and only if \<open>|x - expected_x| < 5 - 2\<^sup>-\<^sup>5\<^sup>1\<close> and
  \<open>|y - expected_y| < 5 - 2\<^sup>-\<^sup>5\<^sup>1\<close> in exact arithmetic (the differences are rounded to
  doubles before they are compared with 5), the failure line if and only if not.
\<close>

theorem centering_verdict:
  assumes "\<And>n a. raises e n a = None"
    and "\<And>n. bounding_box_reply e n = Some b"
    and "viewport_size pg = Some v"
    and "\<bar>vp_width v - 800\<bar> < 2 ^ 53" and "\<bar>vp_height v - 600\<bar> < 2 ^ 53"
  shows "outcome (verify_window_centering pg) e = Inr ()
    \<and> (Print (Text ''VERIFICATION SUCCESS: Window is centered.'')
          \<in> set (events (verify_window_centering pg) e)
        \<longleftrightarrow> \<bar>box_x b - real_of_int (vp_width v - 800) / 2\<bar> < 5 - 2 powi (- 51)
            \<and> \<bar>box_y b - real_of_int (vp_height v - 600) / 2\<bar> < 5 - 2 powi (- 51))
    \<and> (Print (Text ''VERIFICATION FAILURE: Window is not centered.'')
          \<in> set (events (verify_window_centering pg) e)
        \<longleftrightarrow> \<not> (\<bar>box_x b - real_of_int (vp_width v - 800) / 2\<bar> < 5 - 2 powi (- 51)
            \<and> \<bar>box_y b - real_of_int (vp_height v - 600) / 2\<bar> < 5 - 2 powi (- 51)))
    \<and> Print (ExpectedXY (real_of_int (vp_width v - 800) / 2)
               (real_of_int (vp_height v - 600) / 2))
          \<in> set (events (verify_window_centering pg) e)"
  using assms(1-3)
  by (simp add: verify_window_centering_def check_centering_run [OF assms(4,5)]
      prog_defs events_def outcome_def)

theorem centering_verdict_witness:
  "(\<forall>n a. raises quiet_env n a = None)
   \<and> (\<forall>n. bounding_box_reply quiet_env n = Some centered_box)
   \<and> viewport_size \<lparr>viewport_size = Some main_viewport\<rparr> = Some main_viewport
   \<and> \<bar>vp_width main_viewport - 800\<bar> < 2 ^ 53 \<and> \<bar>vp_height main_viewport - 600\<bar> < 2 ^ 53
   \<and> outcome (verify_window_centering \<lparr>viewport_size = Some main_viewport\<rparr>) quiet_env = Inr ()
   \<and> Print (Text ''VERIFICATION SUCCESS: Window is centered.'')
        \<in> set (events (verify_window_centering \<lparr>viewport_size = Some main_viewport\<rparr>) quiet_env)
   \<and> Print (Text ''VERIFICATION FAILURE: Window is not centered.'')
        \<notin> set (events (verify_window_centering \<lparr>viewport_size = Some main_viewport\<rparr>) quiet_env)"
  using centering_verdict [of quiet_env centered_box "\<lparr>viewport_size = Some main_viewport\<rparr>"
      main_viewport]
  by (simp add: quiet_env_def centered_box_def main_viewport_def power_int_minus)

text \<open>
  C1 as stated fails where rounding matters: on an 810 x 610 viewport the expected corner
  is (5, 5); for a box at \<open>(2\<^sup>-\<^sup>6\<^sup>0, 5)\<close> both exact differences are below 5, but
  \<open>2\<^sup>-\<^sup>6\<^sup>0 - 5\<close> rounds to \<open>-5\<close> and the run prints the failure line.
\<close>

theorem rounded_difference_fails:
  "\<bar>box_x offset_box - real_of_int (vp_width offset_viewport - 800) / 2\<bar> < 5
   \<and> \<bar>box_y offset_box - real_of_int (vp_height offset_viewport - 600) / 2\<bar> < 5
   \<and> printed (events (verify_window_centering \<lparr>viewport_size = Some offset_viewport\<rparr>)
         offset_env) =
       [WindowBox offset_box, Viewport offset_viewport, ExpectedXY 5 5,
        Text ''VERIFICATION FAILURE: Window is not centered.'']"
proof -
  have r: "\<bar>vp_width offset_viewport - 800\<bar> < 2 ^ 53" "\<bar>vp_height offset_viewport - 600\<bar> < 2 ^ 53"
    by (simp_all add: offset_viewport_def)
  have run: "printed (events (verify_window_centering \<lparr>viewport_size = Some offset_viewport\<rparr>)
         offset_env) =
       [WindowBox offset_box, Viewport offset_viewport,
        ExpectedXY (real_of_int (vp_width offset_viewport - 800) / 2)
          (real_of_int (vp_height offset_viewport - 600) / 2),
        Text
         (if \<bar>box_x offset_box - real_of_int (vp_width offset_viewport - 800) / 2\<bar>
               < 5 - 2 powi (- 51)
             \<and> \<bar>box_y offset_box - real_of_int (vp_height offset_viewport - 600) / 2\<bar>
               < 5 - 2 powi (- 51)
          then ''VERIFICATION SUCCESS: Window is centered.''
          else ''VERIFICATION FAILURE: Window is not centered.'')]"
    by (simp add: verify_window_centering_def check_centering_run [OF r]
        prog_defs events_def printed_def offset_env_def quiet_env_def)
  show ?thesis
    unfolding run by (simp add: offset_box_def offset_viewport_def power_int_minus)
qed

text \<open>
  At the tolerance the script has, a box that sits exactly on the expected corner passes.
\<close>

lemma exact_match_passes:
  assumes "\<bar>vp_width v - 800\<bar> < 2 ^ 53" and "\<bar>vp_height v - 600\<bar> < 2 ^ 53"
    and "box_x b = real_of_int (vp_width v - 800) / 2"
    and "box_y b = real_of_int (vp_height v - 600) / 2"
  shows "check_centering (Some b) (Some v) e n =
     (Inr (),
      [Print (WindowBox b), Print (Viewport v),
       Print (ExpectedXY (real_of_int (vp_width v - 800) / 2)
                (real_of_int (vp_height v - 600) / 2)),
       Print (Text ''VERIFICATION SUCCESS: Window is centered.'')])"
proof -
  have z: "(0::real) < 5 - 2 powi (- 51)"
    by (simp add: power_int_minus)
  have cx: "\<bar>box_x b - real_of_int (vp_width v - 800) / 2\<bar> < 5 - 2 powi (- 51)"
    unfolding assms(3) using z by simp
  have cy: "\<bar>box_y b - real_of_int (vp_height v - 600) / 2\<bar> < 5 - 2 powi (- 51)"
    unfolding assms(4) using z by simp
  show ?thesis
    by (simp only: check_centering_run [OF assms(1,2)] cx cy simp_thms if_True)
qed

text \<open>
  C7. With the viewport 1280 x 800 of the script and its 800 x 600 window the expected
  corner is (240, 100); the check of lines 42 to 56 prints the success line for a box at
  (242, 98) and the failure line for a box at (260, 100).
\<close>

theorem centering_numbers:
  "expected_x main_viewport = Inr 240 \<and> expected_y main_viewport = Inr 100
   \<and> check_centering (Some \<lparr>box_x = 242, box_y = 98, box_width = 800, box_height = 600\<rparr>)
         (Some main_viewport) e n
       = (Inr (),
           [Print (WindowBox \<lparr>box_x = 242, box_y = 98, box_width = 800, box_height = 600\<rparr>),
            Print (Viewport main_viewport), Print (ExpectedXY 240 100),
            Print (Text ''VERIFICATION SUCCESS: Window is centered.'')])
   \<and> check_centering (Some \<lparr>box_x = 260, box_y = 100, box_width = 800, box_height = 600\<rparr>)
         (Some main_viewport) e n
       = (Inr (),
           [Print (WindowBox \<lparr>box_x = 260, box_y = 100, box_width = 800, box_height = 600\<rparr>),
            Print (Viewport main_viewport), Print (ExpectedXY 240 100),
            Print (Text ''VERIFICATION FAILURE: Window is not centered.'')])"
proof -
  have x: "expected_x main_viewport = Inr 240"
    using int_truediv_two_exact [of 480] by (simp add: expected_x_def main_viewport_def)
  have y: "expected_y main_viewport = Inr 100"
    using int_truediv_two_exact [of 200] by (simp add: expected_y_def main_viewport_def)
  show ?thesis
    by (simp add: x y check_centering_run [OF main_viewport_in_range] power_int_minus)
      (simp add: main_viewport_def)
qed

section \<open>Runs at concrete inputs\<close>

lemmas cm_defs = verify_context_menu_def context_menu_body_def context_menu_handler_def
  probe_background_def probe_menubar_def probe_app_icon_def probe_dock_def

lemmas wc_defs = window_center_main_def verify_window_centering_def error_handler_def
  check_centering_run [OF main_viewport_in_range]

lemmas am_defs = verify_activity_monitor_def activity_body_def error_handler_def

text \<open>
  C10. In each of the three negative probes, when the right click returns and
  \<open>is_visible()\<close> raises (any exception), the probe returns normally and its record is
  the SUCCESS line marked "(exception)": a SUCCESS record is printed although the visibility
  check did not complete.
\<close>

theorem negative_probe_exception_is_success:
  "(raises e n (Click menubar RightButton) = None
      \<and> raises e (n + 1) (IsVisible menu_text) = Some ex
    \<longrightarrow> probe_menubar e n =
         (Inr (), [Call (Click menubar RightButton), Failed (IsVisible menu_text) ex,
            Print (Text ''SUCCESS: Context menu did NOT appear on Menu Bar (exception).'')]))
   \<and> (raises e n (Count app_icon) = None \<and> 0 < count_reply e n
      \<and> raises e (n + 1) (Click app_icon RightButton) = None
      \<and> raises e (n + 2) (IsVisible menu_text) = Some ex
    \<longrightarrow> probe_app_icon e n =
         (Inr (), [Call (Count app_icon), Call (Click app_icon RightButton),
            Failed (IsVisible menu_text) ex,
            Print (Text ''SUCCESS: Context menu did NOT appear on App Icon (exception).'')]))
   \<and> (raises e n (Count dock) = None \<and> 0 < count_reply e n
      \<and> raises e (n + 1) (Click dock RightButton) = None
      \<and> raises e (n + 2) (IsVisible menu_text) = Some ex
    \<longrightarrow> probe_dock e n =
         (Inr (), [Call (Count dock), Call (Click dock RightButton),
            Failed (IsVisible menu_text) ex,
            Print (Text ''SUCCESS: Context menu did NOT appear on Dock (exception).'')]))"
  by (simp add: probe_menubar_def probe_app_icon_def probe_dock_def prog_defs)

theorem negative_probe_exception_is_success_witness:
  "raises visibility_raises 0 (Click menubar RightButton) = None
   \<and> raises visibility_raises (0 + 1) (IsVisible menu_text)
       = Some (PlaywrightError ''Target closed'')
   \<and> raises visibility_raises 0 (Count app_icon) = None \<and> 0 < count_reply visibility_raises 0
   \<and> raises visibility_raises (0 + 1) (Click app_icon RightButton) = None
   \<and> raises visibility_raises (0 + 2) (IsVisible menu_text)
       = Some (PlaywrightError ''Target closed'')
   \<and> raises visibility_raises 0 (Count dock) = None
   \<and> raises visibility_raises (0 + 1) (Click dock RightButton) = None
   \<and> probe_menubar visibility_raises 0 =
         (Inr (), [Call (Click menubar RightButton),
            Failed (IsVisible menu_text) (PlaywrightError ''Target closed''),
            Print (Text ''SUCCESS: Context menu did NOT appear on Menu Bar (exception).'')])
   \<and> probe_app_icon visibility_raises 0 =
         (Inr (), [Call (Count app_icon), Call (Click app_icon RightButton),
            Failed (IsVisible menu_text) (PlaywrightError ''Target closed''),
            Print (Text ''SUCCESS: Context menu did NOT appear on App Icon (exception).'')])
   \<and> probe_dock visibility_raises 0 =
         (Inr (), [Call (Count dock), Call (Click dock RightButton),
            Failed (IsVisible menu_text) (PlaywrightError ''Target closed''),
            Print (Text ''SUCCESS: Context menu did NOT appear on Dock (exception).'')])"
  using negative_probe_exception_is_success
      [of visibility_raises 0 "PlaywrightError ''Target closed''"]
  by (simp add: visibility_raises_def quiet_env_def menubar_def app_icon_def dock_def
      menu_text_def)

text \<open>
  The whole scenario in that environment: three SUCCESS records, none of them backed by a
  visibility check that returned.
\<close>

lemma visibility_raises_run:
  "printed (events verify_context_menu visibility_raises) =
     [Text ''Desktop loaded successfully.'',
      Text ''SUCCESS: Context menu appeared on desktop background.'',
      Text ''SUCCESS: Context menu did NOT appear on Menu Bar (exception).'',
      Text ''SUCCESS: Context menu did NOT appear on App Icon (exception).'',
      Text ''SUCCESS: Context menu did NOT appear on Dock (exception).'']"
  by (simp add: events_def printed_def cm_defs prog_defs visibility_raises_def quiet_env_def
      menubar_def app_icon_def dock_def menu_text_def)

text \<open>
  C5. When the target application is not running, the navigation of line 12 of
  \<open>verify_context_menu.py\<close> raises outside the \<open>try\<close>: the exception escapes, no
  screenshot is attempted and \<open>browser.close()\<close> is not called.
\<close>

theorem origin_unreachable_run:
  "events verify_context_menu origin_unreachable =
     [Call Start, Call Launch,
      Call (NewContext (Some \<lparr>vp_width = 1280, vp_height = 800\<rparr>)),
      Call NewPage,
      Failed (Goto ''http://localhost:5173/'' None)
        (PlaywrightError ''net::ERR_CONNECTION_REFUSED''),
      Call Stop]
   \<and> outcome verify_context_menu origin_unreachable
       = Inl (PlaywrightError ''net::ERR_CONNECTION_REFUSED'')
   \<and> checkpoints (events verify_context_menu origin_unreachable) = []"
  by (simp add: events_def outcome_def checkpoints_def cm_defs prog_defs
      origin_unreachable_def quiet_env_def)

text \<open>
  What the \<open>try\<close> of each script does give, once it is entered: an exception of the body
  is printed and followed by an attempt at the error-state screenshot, and the finaliser
  attempts \<open>browser.close()\<close> as the last step on every exit.
\<close>

lemma handler_attempts_screenshot:
  assumes "fst (body e n) = Inl ex"
  shows "\<exists>ev. snd (try_except body error_handler e n)
           = snd (body e n) @ [Print (ErrorLine ''Error: '' ex), ev]
         \<and> ev \<in> {Call (Screenshot ''verification/error.png'')}
              \<union> range (Failed (Screenshot ''verification/error.png''))"
  using assms
  by (cases "body e n")
    (auto simp: try_except_def error_handler_def prog_defs split: option.splits)

lemma finally_attempts_close:
  "last (snd (try_finally body (call Close) e n)) \<in> {Call Close} \<union> range (Failed Close)"
  by (cases "body e n") (auto simp: try_finally_def call_def split: option.splits)

text \<open>
  C9. When \<open>bounding_box()\<close> returns \<open>None\<close>, or the page has no viewport size, the
  window-centering check returns normally and prints nothing: neither the success nor the
  failure line.
\<close>

theorem no_bounding_box_run:
  "events window_center_main no_bounding_box =
     [Call Start, Call Launch, Call (BrowserNewPage (Some main_viewport)),
      Call (Goto ''http://localhost:5173/login'' None),
      Call (Evaluate window_center_seed),
      Call (Goto ''http://localhost:5173/desktop'' None),
      Call (WaitForSelector ''.desktop-icon'' None),
      Call (Click (First (FilterHasText (Locator ''button.desktop-icon'') ''Settings''))
              LeftButton),
      Call (WaitForSelector window_selector None),
      Call (Screenshot ''verification/verification.png''),
      Call (BoundingBox (First (Locator window_selector))),
      Call Close, Call Stop]
   \<and> printed (events window_center_main no_bounding_box) = []
   \<and> outcome window_center_main no_bounding_box = Inr ()
   \<and> printed (events (verify_window_centering \<lparr>viewport_size = None\<rparr>) quiet_env) = []
   \<and> outcome (verify_window_centering \<lparr>viewport_size = None\<rparr>) quiet_env = Inr ()"
  by (simp add: events_def outcome_def printed_def wc_defs prog_defs no_bounding_box_def
      quiet_env_def)

text \<open>
  C8 as stated fails in the activity-monitor scenario: when one assertion fails, the
  checkpoint screenshot \<open>activity_monitor.png\<close> is not taken; the run takes the
  error-state screenshot instead.
\<close>

theorem header_missing_run:
  "events verify_activity_monitor header_missing =
     [Call Start, Call Launch, Call (NewContext None), Call NewPage,
      Call (AddInitScript activity_seed),
      Call (Goto ''http://localhost:5173/desktop'' None),
      Call (ExpectVisible (GetByText ''Mynt NAS'') (Some 10000)),
      Call (ExpectVisible activity_icon None),
      Call (Click activity_icon LeftButton),
      Call (ExpectVisible (Nth (GetByText ''Activity Monitor'') 1) None),
      Call (ExpectVisible (GetByRole ''button'' ''CPU'') None),
      Call (ExpectVisible (GetByRole ''button'' ''Memory'') None),
      Failed (ExpectVisible (GetByText ''Process Name'') None)
        (AssertionError ''Locator expected to be visible''),
      Print (ErrorLine ''Error: '' (AssertionError ''Locator expected to be visible'')),
      Call (Screenshot ''verification/error.png''),
      Call Close, Call Stop]
   \<and> checkpoints (events verify_activity_monitor header_missing)
       = [''verification/error.png'']"
  by (simp add: events_def checkpoints_def am_defs prog_defs header_missing_def quiet_env_def
      activity_icon_def)

text \<open>
  C4 as stated fails when a probe's target is not found: the probe is skipped with a
  WARNING line, which is neither a pass nor a fail record.
\<close>

theorem nothing_found_run:
  "printed (events verify_context_menu nothing_found) =
     [Text ''Desktop loaded successfully.'',
      Text ''SUCCESS: Context menu appeared on desktop background.'',
      Text ''SUCCESS: Context menu did NOT appear on Menu Bar.'',
      Text ''WARNING: Could not find app icon to test.'',
      Text ''WARNING: Could not find dock to test.'']"
  by (simp add: events_def printed_def cm_defs prog_defs nothing_found_def quiet_env_def)

text \<open>
  C3 as stated fails: in the run where everything goes well, the menu-bar, app-icon and
  dock probes start without a primary click since the previous right click.
\<close>

theorem quiet_run_leaves_menu:
  "\<not> no_leftover_menu False (events verify_context_menu quiet_env)"
  by (simp add: events_def cm_defs prog_defs quiet_env_def menubar_def app_icon_def dock_def)

text \<open>
  C2 as stated fails in the context-menu and window-centering scenarios: their first
  navigation is made before any seed is installed.
\<close>

theorem navigation_before_seed:
  "\<not> seeded_navigations False (events verify_context_menu quiet_env)
   \<and> \<not> seeded_navigations False (events window_center_main quiet_env)"
  by (simp add: events_def cm_defs wc_defs prog_defs quiet_env_def)

section \<open>The clean-up click\<close>

text \<open>
  C3 (as amended). Whenever the background probe returns (its visibility wait passed or
  failed), it has issued the primary click at (500, 500) after its right click, so no menu
  is left open for the menu-bar probe. The menu-bar, app-icon and dock probes never issue a
  primary click.
\<close>

theorem cleanup_after_background_only:
  "(fst (probe_background e n) = Inr ()
      \<longrightarrow> \<not> menu_may_be_open b (snd (probe_background e n))
        \<and> Call (MouseClick 500 500) \<in> set (snd (probe_background e n)))
   \<and> filter primary_click (snd (probe_menubar e n)) = []
   \<and> filter primary_click (snd (probe_app_icon e n)) = []
   \<and> filter primary_click (snd (probe_dock e n)) = []"
  by (simp add: probe_background_def probe_menubar_def probe_app_icon_def probe_dock_def
      prog_defs menubar_def app_icon_def dock_def split: option.splits)

theorem cleanup_after_background_only_witness:
  "fst (probe_background checks_fail 9) = Inr ()
   \<and> \<not> menu_may_be_open True (snd (probe_background checks_fail 9))
   \<and> Print (Text ''FAILURE: Context menu did NOT appear on desktop background.'')
       \<in> set (snd (probe_background checks_fail 9))
   \<and> Call (MouseClick 500 500) \<in> set (snd (probe_background checks_fail 9))
   \<and> filter primary_click (snd (probe_menubar checks_fail 17)) = []"
  using cleanup_after_background_only [of checks_fail 9 True]
    cleanup_after_background_only [of checks_fail 17 True]
  by (simp add: probe_background_def prog_defs checks_fail_def quiet_env_def)

section \<open>Seeding and navigation\<close>

lemma seeded_navigations_installed:
  "b \<Longrightarrow> seeded_navigations b evs"
  by (induction b evs rule: seeded_navigations.induct) auto

lemma seeded_navigations_True [simp]: "seeded_navigations True evs"
  by (simp add: seeded_navigations_installed)

lemma sets_session_seeds [simp]:
  "sets_session activity_seed" "sets_session context_menu_seed"
  "sets_session window_center_seed"
  by (simp_all add: sets_session_def activity_seed_def context_menu_seed_def
      window_center_seed_def)

lemma seeded_navigations_snoc [simp]:
  "seeded_navigations b (evs @ [Call Stop]) = seeded_navigations b evs"
  "seeded_navigations b (evs @ [Failed Stop ex]) = seeded_navigations b evs"
  by (induction b evs rule: seeded_navigations.induct) auto

text \<open>The statements after the seeding step do not matter: they are a parameter here.\<close>

lemma activity_prefix_seeded:
  "seeded_navigations False
     (snd (with_sync_playwright
        (block (call Launch # call (NewContext None) # call NewPage
           # call (AddInitScript activity_seed) # rest)) e 0))"
  by (auto simp: prog_defs split: option.splits prod.splits sum.splits)

subsection \<open>Programs that neither navigate nor seed\<close>

lemma quiet_ret: "quiet f (ret v)"
  by (simp add: quiet_def ret_def)

lemma quiet_pure_step: "quiet f (pure_step r)"
  by (simp add: quiet_def pure_step_def)

lemma quiet_print: "f (Print l) = [] \<Longrightarrow> quiet f (print_line l)"
  by (simp add: quiet_def print_line_def)

lemma quiet_call:
  "f (Call a) = [] \<Longrightarrow> (\<And>ex. f (Failed a ex) = []) \<Longrightarrow> quiet f (call a)"
  by (simp add: quiet_def call_def split: option.splits)

lemma quiet_call_ret:
  "f (Call a) = [] \<Longrightarrow> (\<And>ex. f (Failed a ex) = []) \<Longrightarrow> quiet f (call_ret a reply)"
  by (simp add: quiet_def call_ret_def split: option.splits)

lemma quiet_bind:
  assumes "quiet f m" and "\<And>v. quiet f (k v)"
  shows "quiet f (bind_prog m k)"
  unfolding quiet_def
proof (intro allI)
  fix e n
  obtain r evs where m: "m e n = (r, evs)" by (cases "m e n")
  have q: "concat (map f evs) = []"
    using assms(1) m unfolding quiet_def by (metis snd_conv)
  show "concat (map f (snd (bind_prog m k e n))) = []"
  proof (cases r)
    case (Inl ex)
    then show ?thesis using q by (simp add: bind_prog_def m)
  next
    case (Inr v)
    obtain r' evs' where k: "k v e (n + length evs) = (r', evs')"
      by (cases "k v e (n + length evs)")
    have "concat (map f evs') = []"
      using assms(2) [of v] k unfolding quiet_def by (metis snd_conv)
    then show ?thesis using q Inr by (simp add: bind_prog_def m k)
  qed
qed

lemma quiet_seq: "quiet f m \<Longrightarrow> quiet f k \<Longrightarrow> quiet f (seq_prog m k)"
  unfolding seq_prog_def by (rule quiet_bind)

lemma quiet_block_nil: "quiet f (block [])"
  by (simp add: quiet_ret)

lemma quiet_block_cons: "quiet f s \<Longrightarrow> quiet f (block ss) \<Longrightarrow> quiet f (block (s # ss))"
  by (simp add: quiet_seq)

lemma quiet_if: "quiet f p \<Longrightarrow> quiet f q \<Longrightarrow> quiet f (if c then p else q)"
  by simp

lemma quiet_try_except:
  assumes "quiet f body" and "\<And>ex. quiet f (h ex)"
  shows "quiet f (try_except body h)"
  unfolding quiet_def
proof (intro allI)
  fix e n
  obtain r evs where m: "body e n = (r, evs)" by (cases "body e n")
  have q: "concat (map f evs) = []"
    using assms(1) m unfolding quiet_def by (metis snd_conv)
  show "concat (map f (snd (try_except body h e n))) = []"
  proof (cases r)
    case (Inr v)
    then show ?thesis using q by (simp add: try_except_def m)
  next
    case (Inl ex)
    obtain r' evs' where k: "h ex e (n + length evs) = (r', evs')"
      by (cases "h ex e (n + length evs)")
    have "concat (map f evs') = []"
      using assms(2) [of ex] k unfolding quiet_def by (metis snd_conv)
    then show ?thesis using q Inl by (simp add: try_except_def m k)
  qed
qed

lemma quiet_steps: "quiet f p \<Longrightarrow> concat (map f (snd (p e n))) = []"
  by (simp add: quiet_def)

subsection \<open>The steps of a program that starts with a driver call\<close>

lemma steps_seq_call:
  "concat (map f (snd (seq_prog (call a) k e n))) =
     (case raises e n a of
        Some ex \<Rightarrow> f (Failed a ex)
      | None \<Rightarrow> f (Call a) @ concat (map f (snd (k e (Suc n)))))"
  by (cases "k e (Suc n)") (simp add: prog_defs split: option.splits)

lemma fst_seq_call:
  "fst (seq_prog (call a) k e n) =
     (case raises e n a of Some ex \<Rightarrow> Inl ex | None \<Rightarrow> fst (k e (Suc n)))"
  by (cases "k e (Suc n)") (simp add: prog_defs split: option.splits)

lemma steps_seq_quiet:
  "quiet f k \<Longrightarrow> concat (map f (snd (seq_prog (call a) k e n))) =
     (case raises e n a of Some ex \<Rightarrow> f (Failed a ex) | None \<Rightarrow> f (Call a))"
  by (simp add: steps_seq_call quiet_steps split: option.splits)

lemma steps_seq_ret:
  "concat (map f (snd (seq_prog p (ret ()) e n))) = concat (map f (snd (p e n)))"
  by (cases "p e n") (auto simp: prog_defs split: sum.splits)

lemma steps_try_finally:
  assumes "quiet f fin"
  shows "concat (map f (snd (try_finally p fin e n))) = concat (map f (snd (p e n)))"
proof -
  obtain r evs where m: "p e n = (r, evs)" by (cases "p e n")
  obtain r' evs' where k: "fin e (n + length evs) = (r', evs')"
    by (cases "fin e (n + length evs)")
  have "concat (map f evs') = []"
    using assms k unfolding quiet_def by (metis snd_conv)
  then show ?thesis
    by (cases r') (simp_all add: try_finally_def m k)
qed

lemma steps_try_except:
  assumes "\<And>ex. quiet f (h ex)"
  shows "concat (map f (snd (try_except p h e n))) = concat (map f (snd (p e n)))"
proof -
  obtain r evs where m: "p e n = (r, evs)" by (cases "p e n")
  show ?thesis
  proof (cases r)
    case (Inr v)
    then show ?thesis by (simp add: try_except_def m)
  next
    case (Inl ex)
    obtain r' evs' where k: "h ex e (n + length evs) = (r', evs')"
      by (cases "h ex e (n + length evs)")
    have "concat (map f evs') = []"
      using assms [of ex] k unfolding quiet_def by (metis snd_conv)
    then show ?thesis using Inl by (simp add: try_except_def m k)
  qed
qed

lemma steps_with:
  assumes "f (Call Start) = []" and "\<And>ex. f (Failed Start ex) = []"
    and "f (Call Stop) = []" and "\<And>ex. f (Failed Stop ex) = []"
  shows "concat (map f (snd (with_sync_playwright p e n))) =
     (case raises e n Start of Some ex \<Rightarrow> [] | None \<Rightarrow> concat (map f (snd (p e (Suc n)))))"
  unfolding with_sync_playwright_def
  by (simp add: steps_seq_call steps_try_finally quiet_call assms split: option.splits)

subsection \<open>The three scenarios\<close>

lemmas quiet_intros = quiet_block_cons quiet_block_nil quiet_seq quiet_bind quiet_try_except
  quiet_if quiet_ret quiet_pure_step quiet_print quiet_call quiet_call_ret

lemma probes_quiet:
  "quiet seeding_step probe_background" "quiet seeding_step probe_menubar"
  "quiet seeding_step probe_app_icon" "quiet seeding_step probe_dock"
  unfolding probe_background_def probe_menubar_def probe_app_icon_def probe_dock_def
  by (intro quiet_intros; simp)+

lemma handlers_quiet:
  "quiet seeding_step (context_menu_handler ex)" "quiet seeding_step (error_handler ex)"
  "quiet seeding_step (call Close)"
  unfolding context_menu_handler_def error_handler_def
  by (intro quiet_intros; simp)+

lemma check_centering_quiet: "quiet seeding_step (check_centering box viewport)"
proof (cases box)
  case None
  then show ?thesis by (simp add: check_centering_def quiet_ret)
next
  case b: (Some b)
  show ?thesis
  proof (cases viewport)
    case None
    then show ?thesis by (simp add: check_centering_def quiet_ret split: option.splits)
  next
    case (Some v)
    show ?thesis
      unfolding check_centering_def b Some option.case prod.case
      by (intro quiet_intros; simp)
  qed
qed

lemma context_menu_body_steps:
  "concat (map seeding_step (snd (context_menu_body e n))) =
     [(Goto ''http://localhost:5173/desktop'' (Some 10000),
       raises e n (Goto ''http://localhost:5173/desktop'' (Some 10000)) = None)]"
proof -
  have "quiet seeding_step (block
     [call (WaitForSelector ''.desktop-menubar'' (Some 10000)),
      print_line (Text ''Desktop loaded successfully.''),
      probe_background, probe_menubar, probe_app_icon, probe_dock,
      call (Screenshot ''verification/no_context_menu.png'')])"
    by (intro quiet_intros probes_quiet; simp)
  from steps_seq_quiet [OF this, of "Goto ''http://localhost:5173/desktop'' (Some 10000)" e n]
  show ?thesis
    by (simp add: context_menu_body_def split: option.splits)
qed

lemma activity_body_steps:
  "concat (map seeding_step (snd (activity_body e n))) =
     [(Goto ''http://localhost:5173/desktop'' None,
       raises e n (Goto ''http://localhost:5173/desktop'' None) = None)]"
proof -
  have "quiet seeding_step (block
     [call (ExpectVisible (GetByText ''Mynt NAS'') (Some 10000)),
      call (ExpectVisible activity_icon None),
      call (Click activity_icon LeftButton),
      call (ExpectVisible (Nth (GetByText ''Activity Monitor'') 1) None),
      call (ExpectVisible (GetByRole ''button'' ''CPU'') None),
      call (ExpectVisible (GetByRole ''button'' ''Memory'') None),
      call (ExpectVisible (GetByText ''Process Name'') None),
      call (ExpectVisible (GetByText ''% CPU'') None),
      call (Sleep 1),
      call (Screenshot ''verification/activity_monitor.png''),
      print_line (Text ''Screenshot captured'')])"
    by (intro quiet_intros; simp)
  from steps_seq_quiet [OF this, of "Goto ''http://localhost:5173/desktop'' None" e n]
  show ?thesis
    by (simp add: activity_body_def split: option.splits)
qed

lemma window_centering_steps:
  "concat (map seeding_step (snd (verify_window_centering pg e n))) =
     (if raises e n (Goto ''http://localhost:5173/login'' None) = None
      then (Goto ''http://localhost:5173/login'' None, True) #
        (if raises e (Suc n) (Evaluate window_center_seed) = None
         then [(Evaluate window_center_seed, True),
               (Goto ''http://localhost:5173/desktop'' None,
                raises e (Suc (Suc n)) (Goto ''http://localhost:5173/desktop'' None) = None)]
         else [(Evaluate window_center_seed, False)])
      else [(Goto ''http://localhost:5173/login'' None, False)])"
proof -
  have "quiet seeding_step (block
     [call (WaitForSelector ''.desktop-icon'' None),
      call (Click (First (FilterHasText (Locator ''button.desktop-icon'') ''Settings''))
              LeftButton),
      call (WaitForSelector window_selector None),
      call (Screenshot ''verification/verification.png''),
      bind_prog (call_ret (BoundingBox (First (Locator window_selector))) bounding_box_reply)
        (\<lambda>box. check_centering box (viewport_size pg))])"
    by (intro quiet_intros check_centering_quiet; simp)
  note rest = steps_seq_quiet [OF this [unfolded block.simps]]
  show ?thesis
    unfolding verify_window_centering_def block.simps
    apply (subst steps_seq_call)
    apply (subst steps_seq_call)
    apply (subst rest)
    apply (simp split: option.splits)
    done
qed

lemma numeral_positions:
  "Suc (Suc 0) = 2" "Suc (Suc (Suc 0)) = 3" "Suc (Suc (Suc (Suc 0))) = 4"
  "Suc (Suc (Suc (Suc (Suc 0)))) = 5" "Suc (Suc (Suc (Suc (Suc (Suc 0))))) = 6"
  by simp_all

lemma context_menu_steps:
  "seeding_steps (events verify_context_menu e) =
     (if raises e 0 Start = None \<and> raises e 1 Launch = None
         \<and> raises e 2 (NewContext (Some \<lparr>vp_width = 1280, vp_height = 800\<rparr>)) = None
         \<and> raises e 3 NewPage = None
      then
        if raises e 4 (Goto ''http://localhost:5173/'' None) = None
        then (Goto ''http://localhost:5173/'' None, True) #
          (if raises e 5 (Evaluate context_menu_seed) = None
           then [(Evaluate context_menu_seed, True),
                 (Goto ''http://localhost:5173/desktop'' (Some 10000),
                  raises e 6 (Goto ''http://localhost:5173/desktop'' (Some 10000)) = None)]
           else [(Evaluate context_menu_seed, False)])
        else [(Goto ''http://localhost:5173/'' None, False)]
      else [])"
  unfolding seeding_steps_def events_def verify_context_menu_def
  by (simp add: steps_with steps_seq_call steps_seq_ret steps_try_finally [OF handlers_quiet(3)]
      steps_try_except [OF handlers_quiet(1)] context_menu_body_steps numeral_positions
      split: option.splits)

lemma activity_steps:
  "seeding_steps (events verify_activity_monitor e) =
     (if raises e 0 Start = None \<and> raises e 1 Launch = None
         \<and> raises e 2 (NewContext None) = None \<and> raises e 3 NewPage = None
      then
        if raises e 4 (AddInitScript activity_seed) = None
        then [(AddInitScript activity_seed, True),
              (Goto ''http://localhost:5173/desktop'' None,
               raises e 5 (Goto ''http://localhost:5173/desktop'' None) = None)]
        else [(AddInitScript activity_seed, False)]
      else [])"
  unfolding seeding_steps_def events_def verify_activity_monitor_def
  by (simp add: steps_with steps_seq_call steps_seq_ret steps_try_finally [OF handlers_quiet(3)]
      steps_try_except [OF handlers_quiet(2)] activity_body_steps numeral_positions
      split: option.splits)

lemma window_center_steps:
  "seeding_steps (events window_center_main e) =
     (if raises e 0 Start = None \<and> raises e 1 Launch = None
         \<and> raises e 2 (BrowserNewPage (Some main_viewport)) = None
      then
        if raises e 3 (Goto ''http://localhost:5173/login'' None) = None
        then (Goto ''http://localhost:5173/login'' None, True) #
          (if raises e 4 (Evaluate window_center_seed) = None
           then [(Evaluate window_center_seed, True),
                 (Goto ''http://localhost:5173/desktop'' None,
                  raises e 5 (Goto ''http://localhost:5173/desktop'' None) = None)]
           else [(Evaluate window_center_seed, False)])
        else [(Goto ''http://localhost:5173/login'' None, False)]
      else [])"
  unfolding seeding_steps_def events_def window_center_main_def
  by (simp add: steps_with steps_seq_call steps_seq_ret steps_try_finally [OF handlers_quiet(3)]
      steps_try_except [OF handlers_quiet(2)] window_centering_steps numeral_positions
      split: option.splits)

text \<open>
  C2 (as amended). In the activity-monitor scenario the only seeding step is installing the
  init script, it comes before the only navigation, and every navigation is made with it
  installed. In the context-menu and window-centering scenarios the steps are, in this
  order, a navigation to the origin (\<open>/\<close> and \<open>/login\<close>), one \<open>page.evaluate\<close> of the
  seed, and the navigation to \<open>/desktop\<close>; each step is made only if the ones before it
  returned, and there is no other navigation or seeding step in the run.
\<close>

theorem seed_precedes_desktop:
  "seeded_navigations False (events verify_activity_monitor e)
   \<and> seeding_steps (events verify_activity_monitor e) =
       (if raises e 0 Start = None \<and> raises e 1 Launch = None
           \<and> raises e 2 (NewContext None) = None \<and> raises e 3 NewPage = None
        then
          if raises e 4 (AddInitScript activity_seed) = None
          then [(AddInitScript activity_seed, True),
                (Goto ''http://localhost:5173/desktop'' None,
                 raises e 5 (Goto ''http://localhost:5173/desktop'' None) = None)]
          else [(AddInitScript activity_seed, False)]
        else [])
   \<and> seeding_steps (events verify_context_menu e) =
       (if raises e 0 Start = None \<and> raises e 1 Launch = None
           \<and> raises e 2 (NewContext (Some \<lparr>vp_width = 1280, vp_height = 800\<rparr>)) = None
           \<and> raises e 3 NewPage = None
        then
          if raises e 4 (Goto ''http://localhost:5173/'' None) = None
          then (Goto ''http://localhost:5173/'' None, True) #
            (if raises e 5 (Evaluate context_menu_seed) = None
             then [(Evaluate context_menu_seed, True),
                   (Goto ''http://localhost:5173/desktop'' (Some 10000),
                    raises e 6 (Goto ''http://localhost:5173/desktop'' (Some 10000)) = None)]
             else [(Evaluate context_menu_seed, False)])
          else [(Goto ''http://localhost:5173/'' None, False)]
        else [])
   \<and> seeding_steps (events window_center_main e) =
       (if raises e 0 Start = None \<and> raises e 1 Launch = None
           \<and> raises e 2 (BrowserNewPage (Some main_viewport)) = None
        then
          if raises e 3 (Goto ''http://localhost:5173/login'' None) = None
          then (Goto ''http://localhost:5173/login'' None, True) #
            (if raises e 4 (Evaluate window_center_seed) = None
             then [(Evaluate window_center_seed, True),
                   (Goto ''http://localhost:5173/desktop'' None,
                    raises e 5 (Goto ''http://localhost:5173/desktop'' None) = None)]
             else [(Evaluate window_center_seed, False)])
          else [(Goto ''http://localhost:5173/login'' None, False)]
        else [])"
proof (intro conjI)
  show "seeded_navigations False (events verify_activity_monitor e)"
    unfolding events_def verify_activity_monitor_def by (rule activity_prefix_seeded)
qed (rule activity_steps context_menu_steps window_center_steps)+

section \<open>Composing blocks that return\<close>

lemma product_lists_append:
  "xs \<in> set (product_lists A) \<Longrightarrow> ys \<in> set (product_lists B)
   \<Longrightarrow> xs @ ys \<in> set (product_lists (A @ B))"
  by (induction A arbitrary: xs) (auto simp: image_iff)

lemma yields_ret: "yields f e (ret ()) []"
  by (simp add: yields_def ret_def)

lemma yields_seq:
  assumes "yields f e m A" and "yields f e k B"
  shows "yields f e (seq_prog m k) (A @ B)"
  unfolding yields_def
proof (intro allI conjI)
  fix n
  obtain evs where m: "m e n = (Inr (), evs)"
    and a: "concat (map f evs) \<in> set (product_lists A)"
    using assms(1) unfolding yields_def by (metis prod.collapse)
  obtain evs' where k: "k e (n + length evs) = (Inr (), evs')"
    and b: "concat (map f evs') \<in> set (product_lists B)"
    using assms(2) unfolding yields_def by (metis prod.collapse)
  show "fst (seq_prog m k e n) = Inr ()"
    by (simp add: seq_prog_def bind_prog_def m k)
  show "concat (map f (snd (seq_prog m k e n))) \<in> set (product_lists (A @ B))"
    using product_lists_append [OF a b] by (simp add: seq_prog_def bind_prog_def m k)
qed

lemma yields_block_nil: "yields f e (block []) []"
  by (simp add: yields_ret)

lemma yields_block_silent:
  "yields f e s [] \<Longrightarrow> yields f e (block ss) L \<Longrightarrow> yields f e (block (s # ss)) L"
  using yields_seq [of f e s "[]" "block ss" L] by simp

lemma yields_block_one:
  "yields f e s [xs] \<Longrightarrow> yields f e (block ss) L \<Longrightarrow> yields f e (block (s # ss)) (xs # L)"
  using yields_seq [of f e s "[xs]" "block ss" L] by simp

lemma yields_call_silent:
  "(\<And>n. raises e n a = None) \<Longrightarrow> f (Call a) = [] \<Longrightarrow> yields f e (call a) []"
  by (simp add: yields_def call_def)

lemma yields_call_one:
  "(\<And>n. raises e n a = None) \<Longrightarrow> f (Call a) = [x] \<Longrightarrow> yields f e (call a) [[x]]"
  by (simp add: yields_def call_def)

lemma yields_print_one:
  "f (Print l) = [x] \<Longrightarrow> yields f e (print_line l) [[x]]"
  by (simp add: yields_def print_line_def)

lemma yields_print_silent:
  "f (Print l) = [] \<Longrightarrow> yields f e (print_line l) []"
  by (simp add: yields_def print_line_def)

lemma yields_try_except:
  assumes "yields f e body L"
  shows "yields f e (try_except body h) L"
  unfolding yields_def
proof (intro allI conjI)
  fix n
  obtain evs where m: "body e n = (Inr (), evs)"
    and a: "concat (map f evs) \<in> set (product_lists L)"
    using assms unfolding yields_def by (metis prod.collapse)
  show "fst (try_except body h e n) = Inr ()"
    by (simp add: try_except_def m)
  show "concat (map f (snd (try_except body h e n))) \<in> set (product_lists L)"
    by (simp add: try_except_def m a)
qed

lemma yields_try_finally:
  assumes "yields f e body L" and "yields f e fin []"
  shows "yields f e (try_finally body fin) L"
  unfolding yields_def
proof (intro allI conjI)
  fix n
  obtain evs where m: "body e n = (Inr (), evs)"
    and a: "concat (map f evs) \<in> set (product_lists L)"
    using assms(1) unfolding yields_def by (metis prod.collapse)
  obtain evs' where k: "fin e (n + length evs) = (Inr (), evs')"
    and b: "concat (map f evs') = []"
    using assms(2) unfolding yields_def by (metis prod.collapse product_lists.simps(1) empty_iff
        empty_set set_ConsD)
  have c: "concat (map f (evs @ evs')) = concat (map f evs)"
    using b by simp
  show "fst (try_finally body fin e n) = Inr ()"
    by (simp add: try_finally_def m k)
  show "concat (map f (snd (try_finally body fin e n))) \<in> set (product_lists L)"
  proof -
    have "snd (try_finally body fin e n) = evs @ evs'"
      by (simp add: try_finally_def m k)
    then show ?thesis
      using a c by (simp only:)
  qed
qed

lemma yields_with:
  assumes "\<And>n. raises e n Start = None" and "\<And>n. raises e n Stop = None"
    and "f (Call Start) = []" and "f (Call Stop) = []"
    and "yields f e body L"
  shows "yields f e (with_sync_playwright body) L"
  unfolding with_sync_playwright_def
  using yields_seq [OF yields_call_silent [of e Start f]
      yields_try_finally [OF assms(5) yields_call_silent [of e Stop f]]] assms(1-4)
  by simp

lemma yields_events:
  "yields f e p L \<Longrightarrow> concat (map f (events p e)) \<in> set (product_lists L)"
  by (simp add: yields_def events_def)

lemma yields_outcome:
  "yields f e p L \<Longrightarrow> outcome p e = Inr ()"
  by (simp add: yields_def outcome_def)

lemma yields_block_last:
  "yields f e s L \<Longrightarrow> yields f e (block [s]) L"
  using yields_seq [of f e s L "ret ()" "[]"] by (simp add: yields_ret)

lemma yields_weaken:
  "yields f e p [xs] \<Longrightarrow> set xs \<subseteq> set ys \<Longrightarrow> yields f e p [ys]"
  by (auto simp: yields_def)

section \<open>The region matrix when only the visibility checks go wrong\<close>

lemma background_lines:
  assumes "\<And>n a. \<not> visibility_check a \<Longrightarrow> raises e n a = None"
  shows "yields line_of e probe_background [background_records]"
  unfolding yields_def probe_background_def
  using assms
  by (simp add: prog_defs visibility_check_def background_records_def split: option.splits)

lemma menubar_lines:
  assumes "\<And>n a. \<not> visibility_check a \<Longrightarrow> raises e n a = None"
  shows "yields line_of e probe_menubar [menubar_records]"
  unfolding yields_def probe_menubar_def
  using assms
  by (simp add: prog_defs visibility_check_def menubar_records_def menu_text_def menubar_def
      split: option.splits)

lemma app_icon_lines:
  assumes "\<And>n a. \<not> visibility_check a \<Longrightarrow> raises e n a = None"
  shows "yields line_of e probe_app_icon [app_icon_records @ [app_icon_warning]]"
  unfolding yields_def probe_app_icon_def
  using assms
  by (simp add: prog_defs visibility_check_def app_icon_records_def app_icon_warning_def
      menu_text_def app_icon_def split: option.splits)

lemma app_icon_found_lines:
  assumes "\<And>n a. \<not> visibility_check a \<Longrightarrow> raises e n a = None"
    and "\<And>n. 0 < count_reply e n"
  shows "yields line_of e probe_app_icon [app_icon_records]"
  unfolding yields_def probe_app_icon_def
  using assms
  by (simp add: prog_defs visibility_check_def app_icon_records_def
      menu_text_def app_icon_def split: option.splits)

lemma dock_lines:
  assumes "\<And>n a. \<not> visibility_check a \<Longrightarrow> raises e n a = None"
  shows "yields line_of e probe_dock [dock_records @ [dock_warning]]"
  unfolding yields_def probe_dock_def
  using assms
  by (simp add: prog_defs visibility_check_def dock_records_def dock_warning_def
      menu_text_def dock_def split: option.splits)

lemma dock_found_lines:
  assumes "\<And>n a. \<not> visibility_check a \<Longrightarrow> raises e n a = None"
    and "\<And>n. 0 < count_reply e n"
  shows "yields line_of e probe_dock [dock_records]"
  unfolding yields_def probe_dock_def
  using assms
  by (simp add: prog_defs visibility_check_def dock_records_def
      menu_text_def dock_def split: option.splits)

lemma context_menu_lines:
  assumes H: "\<And>n a. \<not> visibility_check a \<Longrightarrow> raises e n a = None"
    and icon: "yields line_of e probe_app_icon [icon_lines]"
    and dk: "yields line_of e probe_dock [dock_lines]"
  shows "yields line_of e verify_context_menu
     [[loaded_line], background_records, menubar_records, icon_lines, dock_lines]"
proof -
  have c: "yields line_of e (call a) []" if "\<not> visibility_check a" for a
    by (rule yields_call_silent) (simp_all add: H that)
  have body: "yields line_of e context_menu_body
     [[loaded_line], background_records, menubar_records, icon_lines, dock_lines]"
    unfolding context_menu_body_def
    by (intro yields_block_silent [OF c] yields_block_one [OF yields_print_one]
        yields_block_one [OF background_lines] yields_block_one [OF menubar_lines]
        yields_block_one [OF icon] yields_block_one [OF dk] yields_block_nil H)
      (simp_all add: visibility_check_def loaded_line_def)
  show ?thesis
    unfolding verify_context_menu_def
    by (intro yields_with yields_block_silent [OF c] yields_block_last yields_try_finally
        yields_try_except body c H)
      (simp_all add: visibility_check_def)
qed

text \<open>
  C4 (as amended). When no driver call other than the visibility checks raises, the run
  returns normally whatever the four visibility checks do (pass, fail or raise), and it
  prints exactly one line per probe, in order: a SUCCESS or FAILURE record for the
  background and for the menu bar, and for the app icon and the dock either such a record
  or, when the target is not found, a WARNING line. When both targets are found all four
  lines are SUCCESS or FAILURE records.
\<close>

theorem probes_independent:
  assumes "\<And>n a. \<not> visibility_check a \<Longrightarrow> raises e n a = None"
  shows "outcome verify_context_menu e = Inr ()
    \<and> printed (events verify_context_menu e) \<in> set (product_lists
        [[loaded_line], background_records, menubar_records,
         app_icon_records @ [app_icon_warning], dock_records @ [dock_warning]])
    \<and> ((\<forall>n. 0 < count_reply e n) \<longrightarrow>
        printed (events verify_context_menu e) \<in> set (product_lists
          [[loaded_line], background_records, menubar_records,
           app_icon_records, dock_records]))"
proof (intro conjI impI)
  note all = context_menu_lines [OF assms app_icon_lines [OF assms] dock_lines [OF assms]]
  show "outcome verify_context_menu e = Inr ()"
    by (rule yields_outcome [OF all])
  show "printed (events verify_context_menu e) \<in> set (product_lists
        [[loaded_line], background_records, menubar_records,
         app_icon_records @ [app_icon_warning], dock_records @ [dock_warning]])"
    unfolding printed_def by (rule yields_events [OF all])
next
  assume found: "\<forall>n. 0 < count_reply e n"
  show "printed (events verify_context_menu e) \<in> set (product_lists
          [[loaded_line], background_records, menubar_records,
           app_icon_records, dock_records])"
    unfolding printed_def
    by (rule yields_events [OF context_menu_lines [OF assms app_icon_found_lines dock_found_lines]])
      (simp_all add: assms found)
qed

theorem probes_independent_witness:
  "(\<forall>n a. visibility_check a \<or> raises checks_fail n a = None)
   \<and> (\<forall>n. 0 < count_reply checks_fail n)
   \<and> outcome verify_context_menu checks_fail = Inr ()
   \<and> printed (events verify_context_menu checks_fail) \<in> set (product_lists
        [[loaded_line], background_records, menubar_records, app_icon_records, dock_records])
   \<and> printed (events verify_context_menu checks_fail) =
       [Text ''Desktop loaded successfully.'',
        Text ''FAILURE: Context menu did NOT appear on desktop background.'',
        Text ''FAILURE: Context menu appeared on Menu Bar.'',
        Text ''FAILURE: Context menu appeared on App Icon.'',
        Text ''FAILURE: Context menu appeared on Dock.'']"
proof -
  have h: "\<not> visibility_check a \<Longrightarrow> raises checks_fail n a = None" for n a
    by (simp add: checks_fail_def visibility_check_def)
  have d: "\<forall>n a. visibility_check a \<or> raises checks_fail n a = None"
    by (simp add: checks_fail_def visibility_check_def)
  have f: "\<forall>n. 0 < count_reply checks_fail n"
    by (simp add: checks_fail_def quiet_env_def)
  have run: "printed (events verify_context_menu checks_fail) =
       [Text ''Desktop loaded successfully.'',
        Text ''FAILURE: Context menu did NOT appear on desktop background.'',
        Text ''FAILURE: Context menu appeared on Menu Bar.'',
        Text ''FAILURE: Context menu appeared on App Icon.'',
        Text ''FAILURE: Context menu appeared on Dock.'']"
    by (simp add: events_def printed_def cm_defs prog_defs checks_fail_def quiet_env_def)
  note inst = probes_independent [of checks_fail, OF h]
  have o: "outcome verify_context_menu checks_fail = Inr ()"
    using inst by blast
  have m: "printed (events verify_context_menu checks_fail) \<in> set (product_lists
        [[loaded_line], background_records, menubar_records, app_icon_records, dock_records])"
    using inst f by blast
  show ?thesis
    by (intro conjI d f o m run)
qed

section \<open>Checkpoint screenshots\<close>

lemma background_shots:
  assumes "\<And>n a. \<not> visibility_check a \<Longrightarrow> raises e n a = None"
  shows "yields checkpoint_of e probe_background [[''verification/desktop_context_menu.png'']]"
  unfolding yields_def probe_background_def
  using assms
  by (simp add: prog_defs visibility_check_def split: option.splits)

lemma negative_probe_shots:
  assumes "\<And>n a. \<not> visibility_check a \<Longrightarrow> raises e n a = None"
  shows "yields checkpoint_of e probe_menubar []"
    and "yields checkpoint_of e probe_app_icon []"
    and "yields checkpoint_of e probe_dock []"
  unfolding yields_def probe_menubar_def probe_app_icon_def probe_dock_def
  using assms
  by (simp_all add: prog_defs visibility_check_def menu_text_def menubar_def app_icon_def
      dock_def split: option.splits)

lemma context_menu_shots:
  assumes H: "\<And>n a. \<not> visibility_check a \<Longrightarrow> raises e n a = None"
  shows "yields checkpoint_of e verify_context_menu
     [[''verification/desktop_context_menu.png''], [''verification/no_context_menu.png'']]"
proof -
  have c: "yields checkpoint_of e (call a) []"
    if "\<not> visibility_check a" and "checkpoint_of (Call a) = []" for a
    by (rule yields_call_silent) (simp_all add: H that)
  have shot: "yields checkpoint_of e (call (Screenshot path)) [[path]]" for path
    by (rule yields_call_one) (simp_all add: H visibility_check_def)
  have body: "yields checkpoint_of e context_menu_body
     [[''verification/desktop_context_menu.png''], [''verification/no_context_menu.png'']]"
    unfolding context_menu_body_def
    by (intro yields_block_one [OF shot] yields_block_silent [OF c]
        yields_block_silent [OF yields_print_silent]
        yields_block_one [OF background_shots]
        yields_block_silent [OF negative_probe_shots(1)]
        yields_block_silent [OF negative_probe_shots(2)]
        yields_block_silent [OF negative_probe_shots(3)] yields_block_nil H)
      (simp_all add: visibility_check_def)
  show ?thesis
    unfolding verify_context_menu_def
    by (intro yields_with yields_block_silent [OF c] yields_block_last yields_try_finally
        yields_try_except body c H)
      (simp_all add: visibility_check_def)
qed

lemma check_centering_shots:
  "\<exists>evs. check_centering box (Some main_viewport) e n = (Inr (), evs)
     \<and> concat (map checkpoint_of evs) = []"
  by (cases box) (simp_all add: ret_def check_centering_run [OF main_viewport_in_range])

lemma window_center_shots:
  assumes "\<And>n a. raises e n a = None"
  shows "checkpoints (events window_center_main e) = [''verification/verification.png'']"
proof -
  obtain evs where c:
    "check_centering
       (bounding_box_reply e (Suc (Suc (Suc (Suc (Suc (Suc (Suc (Suc (Suc (Suc 0)))))))))))
       (Some main_viewport) e
       (Suc (Suc (Suc (Suc (Suc (Suc (Suc (Suc (Suc (Suc (Suc 0))))))))))) = (Inr (), evs)"
    and q: "concat (map checkpoint_of evs) = []"
    using check_centering_shots by blast
  show ?thesis
    using assms q
    by (simp add: events_def checkpoints_def window_center_main_def
        verify_window_centering_def error_handler_def prog_defs c)
qed

lemma activity_shots:
  assumes "\<And>n a. \<not> is_assertion a \<Longrightarrow> raises e n a = None"
  shows "checkpoints (events verify_activity_monitor e) =
     (if filter failed_assertion (events verify_activity_monitor e) = []
      then [''verification/activity_monitor.png''] else [''verification/error.png''])"
  using assms
  by (simp add: events_def checkpoints_def am_defs prog_defs split: option.splits)

text \<open>
  C8 (as amended). In the context-menu scenario, when no driver call other than the
  visibility checks raises, both checkpoint screenshots are taken whatever the verdicts of
  the probes. In the window-centering scenario, when no driver call raises, the checkpoint
  screenshot is taken whatever the box and so whatever the verdict. In the activity-monitor
  scenario, when no driver call other than the assertions raises, the checkpoint
  screenshot is taken exactly when no assertion failed; when one failed the error-state
  screenshot is taken instead.
\<close>

theorem checkpoint_screenshots:
  "((\<forall>n a. \<not> visibility_check a \<longrightarrow> raises e n a = None) \<longrightarrow>
      checkpoints (events verify_context_menu e) =
        [''verification/desktop_context_menu.png'', ''verification/no_context_menu.png''])
   \<and> ((\<forall>n a. raises e n a = None) \<longrightarrow>
      checkpoints (events window_center_main e) = [''verification/verification.png''])
   \<and> ((\<forall>n a. \<not> is_assertion a \<longrightarrow> raises e n a = None) \<longrightarrow>
      checkpoints (events verify_activity_monitor e) =
        (if filter failed_assertion (events verify_activity_monitor e) = []
         then [''verification/activity_monitor.png''] else [''verification/error.png'']))"
proof (intro conjI impI)
  assume "\<forall>n a. \<not> visibility_check a \<longrightarrow> raises e n a = None"
  then have "yields checkpoint_of e verify_context_menu
     [[''verification/desktop_context_menu.png''], [''verification/no_context_menu.png'']]"
    by (intro context_menu_shots) simp
  from yields_events [OF this]
  show "checkpoints (events verify_context_menu e) =
        [''verification/desktop_context_menu.png'', ''verification/no_context_menu.png'']"
    by (simp add: checkpoints_def)
next
  assume "\<forall>n a. raises e n a = None"
  then show "checkpoints (events window_center_main e) = [''verification/verification.png'']"
    by (intro window_center_shots) simp
next
  assume "\<forall>n a. \<not> is_assertion a \<longrightarrow> raises e n a = None"
  then show "checkpoints (events verify_activity_monitor e) =
        (if filter failed_assertion (events verify_activity_monitor e) = []
         then [''verification/activity_monitor.png''] else [''verification/error.png''])"
    by (intro activity_shots) simp
qed

theorem checkpoint_screenshots_witness:
  "(\<forall>n a. visibility_check a \<or> raises checks_fail n a = None)
   \<and> checkpoints (events verify_context_menu checks_fail) =
        [''verification/desktop_context_menu.png'', ''verification/no_context_menu.png'']
   \<and> (\<forall>n a. raises no_bounding_box n a = None)
   \<and> checkpoints (events window_center_main no_bounding_box) = [''verification/verification.png'']
   \<and> (\<forall>n a. is_assertion a \<or> raises header_missing n a = None)
   \<and> filter failed_assertion (events verify_activity_monitor header_missing) \<noteq> []
   \<and> checkpoints (events verify_activity_monitor header_missing) = [''verification/error.png'']
   \<and> (\<forall>n a. is_assertion a \<or> raises quiet_env n a = None)
   \<and> filter failed_assertion (events verify_activity_monitor quiet_env) = []
   \<and> checkpoints (events verify_activity_monitor quiet_env)
       = [''verification/activity_monitor.png'']"
proof -
  have h1: "\<forall>n a. \<not> visibility_check a \<longrightarrow> raises checks_fail n a = None"
    by (simp add: checks_fail_def visibility_check_def)
  have h2: "\<forall>n a. raises no_bounding_box n a = None"
    by (simp add: no_bounding_box_def quiet_env_def)
  have h3: "\<forall>n a. \<not> is_assertion a \<longrightarrow> raises header_missing n a = None"
    by (simp add: header_missing_def)
  have h4: "\<forall>n a. \<not> is_assertion a \<longrightarrow> raises quiet_env n a = None"
    by (simp add: quiet_env_def)
  have f3: "filter failed_assertion (events verify_activity_monitor header_missing) \<noteq> []"
    by (simp add: events_def am_defs prog_defs header_missing_def quiet_env_def)
  have f4: "filter failed_assertion (events verify_activity_monitor quiet_env) = []"
    by (simp add: events_def am_defs prog_defs quiet_env_def)
  have c1: "checkpoints (events verify_context_menu checks_fail) =
        [''verification/desktop_context_menu.png'', ''verification/no_context_menu.png'']"
    using checkpoint_screenshots [of checks_fail] h1 by blast
  have c2: "checkpoints (events window_center_main no_bounding_box)
        = [''verification/verification.png'']"
    using checkpoint_screenshots [of no_bounding_box] h2 by blast
  have "checkpoints (events verify_activity_monitor header_missing) =
        (if filter failed_assertion (events verify_activity_monitor header_missing) = []
         then [''verification/activity_monitor.png''] else [''verification/error.png''])"
    using checkpoint_screenshots [of header_missing] h3 by blast
  then have c3: "checkpoints (events verify_activity_monitor header_missing)
        = [''verification/error.png'']"
    using f3 by (simp only: if_False)
  have "checkpoints (events verify_activity_monitor quiet_env) =
        (if filter failed_assertion (events verify_activity_monitor quiet_env) = []
         then [''verification/activity_monitor.png''] else [''verification/error.png''])"
    using checkpoint_screenshots [of quiet_env] h4 by blast
  then have c4: "checkpoints (events verify_activity_monitor quiet_env)
        = [''verification/activity_monitor.png'']"
    using f4 by (simp only: if_True simp_thms)
  have d1: "\<forall>n a. visibility_check a \<or> raises checks_fail n a = None"
    by (simp add: checks_fail_def visibility_check_def)
  have d3: "\<forall>n a. is_assertion a \<or> raises header_missing n a = None"
    by (simp add: header_missing_def)
  have d4: "\<forall>n a. is_assertion a \<or> raises quiet_env n a = None"
    by (simp add: quiet_env_def)
  show ?thesis
    by (intro conjI c1 c2 c3 c4 d1 h2 d3 d4 f3 f4)
qed

end
